theory Spec2Isabelle
  imports Complex_Main "HOL-Library.AList" "HOL-Library.Product_Lexorder"
begin

section \<open>The recommendation service of MOBILIO\<close>

text \<open>
  A shallow embedding of \<^verbatim>\<open>recomendation/main.py\<close>,
  \<^verbatim>\<open>recomendation/services/ml_recommendation_service.py\<close> and
  \<^verbatim>\<open>recomendation/services/database_manager.py\<close>.

  Conventions of the embedding.
  \<^item> Python's \<^verbatim>\<open>int\<close> is \<open>int\<close>; \<^verbatim>\<open>float\<close> and SQL \<^verbatim>\<open>DECIMAL\<close> values are
    \<open>real\<close> (rounding is not modelled); a nullable column is an \<open>option\<close>. A \<^verbatim>\<open>DECIMAL\<close>
    column reaches Python as a \<^verbatim>\<open>decimal.Decimal\<close>: arithmetic between such a value and a
    \<^verbatim>\<open>float\<close> raises \<^verbatim>\<open>TypeError\<close>, and this is modelled where the source does it.
  \<^item> A Python \<^verbatim>\<open>dict\<close> is an association list in insertion order: \<open>AList.update\<close>
    replaces the value of a present key in place and appends a new key at the end, as
    assignment to a dict item does.
  \<^item> An exception is a value of \<open>py_exception\<close>; a function that may raise returns
    \<open>py_exception + 'a\<close> with \<open>Inl\<close> for the raise.
  \<^item> The two databases are values of \<open>database\<close>; a table that does not exist is \<open>None\<close>
    and every statement on it raises. The SQL is the MySQL dialect that the
    \<^verbatim>\<open>%s\<close> parameter style of the queries belongs to (\<^verbatim>\<open>sqlite3\<close> rejects a statement
    with such a parameter, so the sync cannot fill a SQLite mirror), and the rows are
    what \<^verbatim>\<open>pymysql\<close> returns for it.
  \<^item> The numeric libraries (numpy, scikit-learn) are not part of the repository: what they
    compute is a parameter of the model (\<open>ml_env\<close>).
\<close>

subsection \<open>Exceptions and messages\<close>

datatype py_exception =
    OperationalError
  | ProgrammingError
  | IntegrityError
  | IndexError
  | ZeroDivisionError
  | ValidationError
  | ValueError
  | TypeError
  | HTTPException int detail
and detail =
    LimitCannotExceed50
  | NoSimilarProductsFound int
  | NoCopurchaseFound int
  | ErrorGettingSimilar py_exception
  | ErrorGettingCopurchase py_exception

text \<open>\<^verbatim>\<open>str(e)\<close> as it is used in the health report; only emptiness matters there.\<close>

fun str_exception :: "py_exception \<Rightarrow> string" where
  "str_exception OperationalError = ''OperationalError''"
| "str_exception ProgrammingError = ''ProgrammingError''"
| "str_exception IntegrityError = ''IntegrityError''"
| "str_exception IndexError = ''IndexError''"
| "str_exception ZeroDivisionError = ''ZeroDivisionError''"
| "str_exception ValidationError = ''ValidationError''"
| "str_exception ValueError = ''ValueError''"
| "str_exception TypeError = ''TypeError''"
| "str_exception (HTTPException c d) = ''HTTPException''"

subsection \<open>Rows, tables and databases\<close>

record user_row =
  u_id :: int
  u_name :: string
  u_email :: string
  u_password :: "string option"
  u_role :: "string option"
  u_sort_option :: "string option"

record product_row =
  p_id :: int
  p_name :: string
  p_price :: "real option"
  p_brand :: "string option"
  p_category :: "string option"
  p_rating :: "real option"
  p_picture :: "string option"
  p_stock :: "int option"

record order_row =
  o_id :: int
  o_customer_id :: int
  o_total_amount :: real
  o_created_at :: string

record orderitem_row =
  oi_id :: int
  oi_order_id :: int
  oi_product_id :: int
  oi_quantity :: int
  oi_total_amount :: real

record database =
  users :: "user_row list option"
  products :: "product_row list option"
  orders :: "order_row list option"
  orderitem :: "orderitem_row list option"

datatype store = Production | Analytics

text \<open>
  A sparse matrix is a dict of dicts: \<^verbatim>\<open>matrix[a][b] = weight\<close>.
\<close>

type_synonym matrix = "(int \<times> (int \<times> real) list) list"

type_synonym features = "(int \<times> product_row) list"

text \<open>A pickle file of the model directory: absent, unreadable, or holding a value.\<close>

datatype 'a pickle = Missing | Unreadable | Stored 'a

record model_dir =
  similarity_pkl :: "matrix option pickle"
  copurchase_pkl :: "matrix option pickle"
  features_pkl :: "features pickle"

text \<open>The statements of \<^verbatim>\<open>sync_production_data\<close>, for fault injection.\<close>

datatype table = Users | Products | Orders | Orderitem

datatype sync_stmt =
    CreateTable table
  | DeleteFrom table
  | SelectFrom table
  | InsertInto table int
  | Commit

text \<open>
  The world outside the service object: both databases (their committed contents), whether
  each accepts connections, which statements of a sync are made to fail, which write of
  a model file fails (if any), the model directory, and the log of connections opened.
\<close>

record world =
  production :: database
  analytics :: database
  reachable :: "store \<Rightarrow> bool"
  sync_fault :: "sync_stmt \<Rightarrow> bool"
  save_fault :: "nat option"
  model_files :: model_dir
  connections :: "store list"

record service =
  similarity_matrix :: "matrix option"
  copurchase_matrix :: "matrix option"
  product_features :: features
  models_trained :: bool

subsection \<open>\<^verbatim>\<open>DatabaseManager.get_connection\<close>\<close>

definition db_of :: "world \<Rightarrow> store \<Rightarrow> database" where
  "db_of w s = (case s of Production \<Rightarrow> production w | Analytics \<Rightarrow> analytics w)"

definition log_connection :: "store \<Rightarrow> world \<Rightarrow> world" where
  "log_connection s w = w\<lparr>connections := connections w @ [s]\<rparr>"

text \<open>
  Opening a connection is logged whether it succeeds or not. The connection is the
  database as this connection sees it; with \<^verbatim>\<open>autocommit=False\<close> its writes stay in
  this copy until \<^verbatim>\<open>commit()\<close>.
\<close>

definition get_connection :: "store \<Rightarrow> world \<Rightarrow> (py_exception + database) \<times> world" where
  "get_connection s w =
     (if reachable w s then (Inr (db_of w s), log_connection s w)
      else (Inl OperationalError, log_connection s w))"

subsection \<open>\<^verbatim>\<open>get_health_status\<close>\<close>

text \<open>Truthiness of a Python string, and \<^verbatim>\<open>all(...)\<close> over strings.\<close>

definition py_bool_str :: "string \<Rightarrow> bool" where
  "py_bool_str s = (s \<noteq> [])"

definition py_all_str :: "string list \<Rightarrow> bool" where
  "py_all_str xs = list_all py_bool_str xs"

record health_report =
  h_status :: string
  h_models_trained :: bool
  h_model_files :: "(string \<times> bool) list"
  h_database_status :: "(string \<times> string) list"
  h_model_statistics :: "(string \<times> nat) list"

definition exists_pkl :: "'a pickle \<Rightarrow> bool" where
  "exists_pkl f = (f \<noteq> Missing)"

text \<open>
  \<^verbatim>\<open>get_connection(timeout=5); cursor.execute("SELECT 1"); cursor.fetchone()\<close> in its own
  \<^verbatim>\<open>try\<close>: the status string is \<^verbatim>\<open>"healthy"\<close> or \<^verbatim>\<open>f"error: {str(e)}"\<close>.
\<close>

definition check_store :: "store \<Rightarrow> world \<Rightarrow> string \<times> world" where
  "check_store s w =
     (case get_connection s w of
        (Inr conn, w') \<Rightarrow> (''healthy'', w')
      | (Inl e, w') \<Rightarrow> (''error: '' @ str_exception e, w'))"

definition pairs_count :: "matrix option \<Rightarrow> nat" where
  "pairs_count m = (case m of None \<Rightarrow> 0 | Some rows \<Rightarrow> sum_list (map (\<lambda>(k, v). length v) rows))"

definition get_health_status :: "service \<Rightarrow> world \<Rightarrow> health_report \<times> world" where
  "get_health_status self w =
     (let model_files' =
            [(''similarity_matrix'', exists_pkl (similarity_pkl (model_files w))),
             (''copurchase_matrix'', exists_pkl (copurchase_pkl (model_files w))),
             (''product_features'', exists_pkl (features_pkl (model_files w)))];
          (prod_status, w1) = check_store Production w;
          (an_status, w2) = check_store Analytics w1;
          db_status = [(''production'', prod_status), (''analytics'', an_status)];
          model_stats =
            (if models_trained self then
               [(''products_count'', length (product_features self)),
                (''similarity_pairs'', pairs_count (similarity_matrix self)),
                (''copurchase_pairs'', pairs_count (copurchase_matrix self))]
             else [])
      in (\<lparr> h_status = (if models_trained self \<and> py_all_str (map snd db_status)
                         then ''healthy'' else ''degraded''),
            h_models_trained = models_trained self,
            h_model_files = model_files',
            h_database_status = db_status,
            h_model_statistics = model_stats \<rparr>, w2))"

subsection \<open>Python lists and dicts\<close>

text \<open>\<^verbatim>\<open>xs[:n]\<close>: a negative \<open>n\<close> counts from the end.\<close>

definition py_slice_to :: "'a list \<Rightarrow> int \<Rightarrow> 'a list" where
  "py_slice_to xs n =
     (if 0 \<le> n then take (nat n) xs else take (nat (int (length xs) + n)) xs)"

text \<open>
  \<^verbatim>\<open>sorted(d.items(), key=lambda x: x[1], reverse=True)\<close>: descending in the value, and
  stable (items with equal values keep the order of the dict).
\<close>

definition sorted_desc :: "('k \<times> real) list \<Rightarrow> ('k \<times> real) list" where
  "sorted_desc xs = sort_key (\<lambda>x. - snd x) xs"

text \<open>\<^verbatim>\<open>m[a][b]\<close> read with \<^verbatim>\<open>.get\<close>, and \<^verbatim>\<open>m[a][b] = v\<close> on a \<^verbatim>\<open>defaultdict\<close> of dicts.\<close>

definition lookup2 :: "matrix \<Rightarrow> int \<Rightarrow> int \<Rightarrow> real option" where
  "lookup2 m a b = (case map_of m a of None \<Rightarrow> None | Some row \<Rightarrow> map_of row b)"

definition set_item2 :: "matrix \<Rightarrow> int \<Rightarrow> int \<Rightarrow> real \<Rightarrow> matrix" where
  "set_item2 m a b v =
     AList.update a (AList.update b v (case map_of m a of None \<Rightarrow> [] | Some row \<Rightarrow> row)) m"

text \<open>Truthiness of a nullable number and of a nullable string.\<close>

definition py_bool_num :: "real option \<Rightarrow> bool" where
  "py_bool_num x = (case x of None \<Rightarrow> False | Some v \<Rightarrow> v \<noteq> 0)"

definition py_bool_opt_str :: "string option \<Rightarrow> bool" where
  "py_bool_opt_str x = (case x of None \<Rightarrow> False | Some s \<Rightarrow> s \<noteq> [])"

subsection \<open>The numeric libraries\<close>

text \<open>
  \<open>ml_available\<close>: \<^verbatim>\<open>import numpy\<close> and the \<^verbatim>\<open>sklearn\<close> imports succeed.
  \<open>item_embedding M i\<close>: row \<open>i\<close> of the array \<^verbatim>\<open>item_embeddings\<close> that
  \<^verbatim>\<open>_matrix_factorization\<close> returns for the interaction table \<open>M\<close>, that is the numbers
  that numpy's seeded generator and the gradient descent (or, in the handler,
  \<^verbatim>\<open>np.random.random\<close>) produce.
  \<open>cosine_similarity E\<close>: a square matrix indexed by the rows of \<open>E\<close>, or the exception
  the library raises.
  \<open>similarity_scores X\<close>: \<^verbatim>\<open>cosine_similarity(PCA(...).fit_transform(StandardScaler().fit_transform(X)))\<close>,
  a square matrix indexed by the rows of \<open>X\<close>, or the exception the library raises.
\<close>

record ml_env =
  ml_available :: bool
  item_embedding :: "real list list \<Rightarrow> nat \<Rightarrow> real list"
  cosine_similarity :: "real list list \<Rightarrow> py_exception + (nat \<Rightarrow> nat \<Rightarrow> real)"
  similarity_scores :: "real list list \<Rightarrow> py_exception + (nat \<Rightarrow> nat \<Rightarrow> real)"

subsection \<open>\<^verbatim>\<open>_build_simple_copurchase_matrix\<close>\<close>

text \<open>
  \<^verbatim>\<open>FROM orderitem o1 JOIN orderitem o2 ON o1.order_id = o2.order_id AND o1.product_id < o2.product_id\<close>:
  the pairs of line items of one order, lower product id first.
\<close>

definition copurchase_join :: "orderitem_row list \<Rightarrow> (orderitem_row \<times> orderitem_row) list" where
  "copurchase_join items =
     filter (\<lambda>(o1, o2). oi_order_id o1 = oi_order_id o2 \<and> oi_product_id o1 < oi_product_id o2)
            (List.product items items)"

text \<open>
  \<^verbatim>\<open>SELECT o1.product_id, o2.product_id, COUNT(*) as frequency ... GROUP BY o1.product_id, o2.product_id\<close>
  \<^verbatim>\<open>HAVING frequency >= 2 ORDER BY frequency DESC\<close>.
\<close>

definition copurchase_query :: "database \<Rightarrow> py_exception + ((int \<times> int) \<times> nat) list" where
  "copurchase_query conn =
     (case orderitem conn of
        None \<Rightarrow> Inl ProgrammingError
      | Some items \<Rightarrow>
          (let pairs = map (\<lambda>(o1, o2). (oi_product_id o1, oi_product_id o2)) (copurchase_join items);
               groups = map (\<lambda>g. (g, count_list pairs g)) (remdups pairs);
               having = filter (\<lambda>(g, frequency). 2 \<le> frequency) groups
           in Inr (sort_key (\<lambda>(g, frequency). - int frequency) having)))"

definition copurchase_row :: "((int \<times> int) \<times> nat) \<Rightarrow> matrix \<Rightarrow> matrix" where
  "copurchase_row row copurchase =
     (case row of ((product1, product2), frequency) \<Rightarrow>
        set_item2 (set_item2 copurchase product1 product2 (real frequency))
                  product2 product1 (real frequency))"

definition build_simple_copurchase_matrix :: "database \<Rightarrow> py_exception + matrix" where
  "build_simple_copurchase_matrix conn =
     (case copurchase_query conn of
        Inl e \<Rightarrow> Inl e
      | Inr results \<Rightarrow> Inr (fold copurchase_row results []))"

subsection \<open>\<^verbatim>\<open>_build_user_item_matrix\<close> and \<^verbatim>\<open>_build_copurchase_matrix\<close>\<close>

text \<open>
  \<^verbatim>\<open>SELECT DISTINCT orders.customer_id, orderitem.product_id, SUM(orderitem.quantity)\<close>
  \<^verbatim>\<open>FROM orders JOIN orderitem ON orders.id = orderitem.order_id GROUP BY orders.customer_id, orderitem.product_id\<close>.
\<close>

definition interactions_query :: "database \<Rightarrow> py_exception + ((int \<times> int) \<times> int) list" where
  "interactions_query conn =
     (case orders conn of
        None \<Rightarrow> Inl ProgrammingError
      | Some os \<Rightarrow>
          (case orderitem conn of
             None \<Rightarrow> Inl ProgrammingError
           | Some items \<Rightarrow>
               (let joined = filter (\<lambda>(ord, item). o_id ord = oi_order_id item) (List.product os items);
                    keys = remdups (map (\<lambda>(ord, item). (o_customer_id ord, oi_product_id item)) joined)
                in Inr (map (\<lambda>k. (k, sum_list (map (\<lambda>(ord, item). oi_quantity item)
                                     (filter (\<lambda>(ord, item). (o_customer_id ord, oi_product_id item) = k) joined))))
                            keys))))"

text \<open>
  The matrix has one row per customer and one column per product of the interactions, both
  in ascending order of id; \<open>None\<close> is the \<^verbatim>\<open>None\<close> of the source (no interaction, or an
  exception caught inside).
\<close>

definition build_user_item_matrix :: "database \<Rightarrow> real list list option" where
  "build_user_item_matrix conn =
     (case interactions_query conn of
        Inl e \<Rightarrow> None
      | Inr interactions \<Rightarrow>
          (if interactions = [] then None
           else
             (let user_ids = sort (remdups (map (\<lambda>(k, s). fst k) interactions));
                  item_ids = sort (remdups (map (\<lambda>(k, s). snd k) interactions))
              in Some (map (\<lambda>u. map (\<lambda>i. (case map_of interactions (u, i) of
                                               None \<Rightarrow> 0 | Some s \<Rightarrow> real_of_int s)) item_ids)
                           user_ids))))"


definition n_items :: "real list list \<Rightarrow> nat" where
  "n_items user_item_matrix = (case user_item_matrix of [] \<Rightarrow> 0 | row # rows \<Rightarrow> length row)"

text \<open>
  \<^verbatim>\<open>_matrix_factorization\<close> returns an array of shape \<^verbatim>\<open>(n_items, n_factors)\<close>, from the
  gradient descent or from its own handler (\<^verbatim>\<open>np.random.random((user_item_matrix.shape[1], 10))\<close>):
  one embedding per column of the table, whatever the number of rows.
\<close>

definition matrix_factorization :: "ml_env \<Rightarrow> real list list \<Rightarrow> real list list" where
  "matrix_factorization env user_item_matrix =
     map (item_embedding env user_item_matrix) [0..<n_items user_item_matrix]"

text \<open>\<^verbatim>\<open>SELECT DISTINCT product_id FROM orderitem ORDER BY product_id\<close>.\<close>

definition product_ids_query :: "database \<Rightarrow> py_exception + int list" where
  "product_ids_query conn =
     (case orderitem conn of
        None \<Rightarrow> Inl ProgrammingError
      | Some items \<Rightarrow> Inr (sort (remdups (map oi_product_id items))))"

text \<open>
  The two nested \<^verbatim>\<open>for i, prod_id1 in enumerate(product_ids)\<close> loops; \<open>n\<close> is the side of
  the square matrix \<open>similarities\<close>, and reading it outside raises \<^verbatim>\<open>IndexError\<close>.
\<close>

fun copurchase_inner ::
  "nat \<Rightarrow> (nat \<Rightarrow> nat \<Rightarrow> real) \<Rightarrow> nat \<times> int \<Rightarrow> (nat \<times> int) list \<Rightarrow> matrix \<Rightarrow> py_exception + matrix" where
  "copurchase_inner n similarities (i, prod_id1) [] copurchase = Inr copurchase"
| "copurchase_inner n similarities (i, prod_id1) ((j, prod_id2) # rest) copurchase =
     (if i \<noteq> j then
        (if i < n \<and> j < n then
           (if similarities i j > 0.2
            then copurchase_inner n similarities (i, prod_id1) rest
                   (set_item2 copurchase prod_id1 prod_id2 (similarities i j * 10))
            else copurchase_inner n similarities (i, prod_id1) rest copurchase)
         else Inl IndexError)
      else copurchase_inner n similarities (i, prod_id1) rest copurchase)"

fun copurchase_outer ::
  "nat \<Rightarrow> (nat \<Rightarrow> nat \<Rightarrow> real) \<Rightarrow> (nat \<times> int) list \<Rightarrow> (nat \<times> int) list \<Rightarrow> matrix \<Rightarrow> py_exception + matrix" where
  "copurchase_outer n similarities [] all_ids copurchase = Inr copurchase"
| "copurchase_outer n similarities (p # rest) all_ids copurchase =
     (case copurchase_inner n similarities p all_ids copurchase of
        Inl e \<Rightarrow> Inl e
      | Inr copurchase' \<Rightarrow> copurchase_outer n similarities rest all_ids copurchase')"

definition build_copurchase_matrix :: "ml_env \<Rightarrow> database \<Rightarrow> py_exception + matrix" where
  "build_copurchase_matrix env conn =
     (if \<not> ml_available env then build_simple_copurchase_matrix conn
      else
        (case build_user_item_matrix conn of
           None \<Rightarrow> build_simple_copurchase_matrix conn
         | Some user_item_matrix \<Rightarrow>
             (let item_embeddings = matrix_factorization env user_item_matrix in
              case product_ids_query conn of
                Inl e \<Rightarrow> Inl e
              | Inr product_ids \<Rightarrow>
                  (if length item_embeddings > 1 then
                     (case cosine_similarity env item_embeddings of
                        Inl e \<Rightarrow> Inl e
                      | Inr similarities \<Rightarrow>
                          copurchase_outer (length item_embeddings) similarities
                            (enumerate 0 product_ids) (enumerate 0 product_ids) [])
                   else Inr []))))"

subsection \<open>\<^verbatim>\<open>_calculate_product_similarity\<close> and \<^verbatim>\<open>_build_simple_similarity_matrix\<close>\<close>

text \<open>
  The rows are read from the mirror, whose \<^verbatim>\<open>price\<close> column is \<^verbatim>\<open>DECIMAL(10,2)\<close>, so
  a price is \<^verbatim>\<open>None\<close> or a \<^verbatim>\<open>decimal.Decimal\<close>.
  \<^verbatim>\<open>if prod1['price'] and prod2['price']\<close> is the truthiness of both prices: a price
  that is \<^verbatim>\<open>None\<close> or zero skips the price term, and so does \<^verbatim>\<open>max_price <= 0\<close>.
  Otherwise \<^verbatim>\<open>price_sim = 1 - (price_diff / max_price)\<close> is a \<^verbatim>\<open>Decimal\<close> and
  \<^verbatim>\<open>score += price_sim * 0.2\<close> multiplies it by a \<^verbatim>\<open>float\<close>, which raises \<^verbatim>\<open>TypeError\<close>
  (\<^verbatim>\<open>_build_similarity_matrix\<close> converts with \<^verbatim>\<open>float(product['price'])\<close>, this function
  does not). A score that is returned is therefore a sum of the floats 0.4 and 0.3 only;
  these sums compare with 0.3 as the reals do.
  \<^verbatim>\<open>==\<close> on two \<^verbatim>\<open>None\<close> categories (or brands) is true.
\<close>

definition calculate_product_similarity :: "product_row \<Rightarrow> product_row \<Rightarrow> py_exception + real" where
  "calculate_product_similarity prod1 prod2 =
     (let score = 0;
          score = (if p_category prod1 = p_category prod2 then score + 0.4 else score);
          score = (if p_brand prod1 = p_brand prod2 then score + 0.3 else score)
      in if py_bool_num (p_price prod1) \<and> py_bool_num (p_price prod2) then
           (case (p_price prod1, p_price prod2) of
              (Some price1, Some price2) \<Rightarrow>
                (let max_price = max price1 price2
                 in if max_price > 0 then Inl TypeError else Inr (min score 1.0))
            | _ \<Rightarrow> Inr (min score 1.0))
         else Inr (min score 1.0))"

definition similarity_pair :: "product_row \<Rightarrow> product_row \<Rightarrow> matrix \<Rightarrow> py_exception + matrix" where
  "similarity_pair prod1 prod2 similarity =
     (case calculate_product_similarity prod1 prod2 of
        Inl e \<Rightarrow> Inl e
      | Inr sim_score \<Rightarrow>
          (if sim_score > 0.3
           then Inr (set_item2 (set_item2 similarity (p_id prod1) (p_id prod2) sim_score)
                               (p_id prod2) (p_id prod1) sim_score)
           else Inr similarity))"

text \<open>
  \<^verbatim>\<open>for i, prod1 in enumerate(products): for j, prod2 in enumerate(products[i+1:], i+1)\<close>;
  an exception of the scorer ends both loops.
\<close>

fun similarity_row :: "product_row \<Rightarrow> product_row list \<Rightarrow> matrix \<Rightarrow> py_exception + matrix" where
  "similarity_row prod1 [] similarity = Inr similarity"
| "similarity_row prod1 (prod2 # rest) similarity =
     (case similarity_pair prod1 prod2 similarity of
        Inl e \<Rightarrow> Inl e
      | Inr similarity' \<Rightarrow> similarity_row prod1 rest similarity')"

fun simple_similarity_loop :: "product_row list \<Rightarrow> matrix \<Rightarrow> py_exception + matrix" where
  "simple_similarity_loop [] similarity = Inr similarity"
| "simple_similarity_loop (prod1 # rest) similarity =
     (case similarity_row prod1 rest similarity of
        Inl e \<Rightarrow> Inl e
      | Inr similarity' \<Rightarrow> simple_similarity_loop rest similarity')"

definition build_simple_similarity_matrix :: "database \<Rightarrow> py_exception + matrix" where
  "build_simple_similarity_matrix conn =
     (case products conn of
        None \<Rightarrow> Inl ProgrammingError
      | Some ps \<Rightarrow> simple_similarity_loop ps [])"

subsection \<open>\<^verbatim>\<open>_build_similarity_matrix\<close>\<close>

definition feature_vector :: "string list \<Rightarrow> string list \<Rightarrow> product_row \<Rightarrow> real list" where
  "feature_vector categories brands product =
     (let cat_vector = map (\<lambda>cat. if p_category product = Some cat then 1 else 0) categories;
          brand_vector = map (\<lambda>brand. if p_brand product = Some brand then 1 else 0) brands;
          price = (case p_price product of
                     Some v \<Rightarrow> (if py_bool_num (Some v) then v else 0.0) | None \<Rightarrow> 0.0);
          rating = (case p_rating product of
                      Some v \<Rightarrow> (if py_bool_num (Some v) then v else 3.0) | None \<Rightarrow> 3.0)
      in cat_vector @ brand_vector @ [price, rating])"

fun similarity_inner ::
  "(nat \<Rightarrow> nat \<Rightarrow> real) \<Rightarrow> nat \<times> int \<Rightarrow> (nat \<times> int) list \<Rightarrow> matrix \<Rightarrow> matrix" where
  "similarity_inner scores (i, prod_id1) [] similarity = similarity"
| "similarity_inner scores (i, prod_id1) ((j, prod_id2) # rest) similarity =
     (if i \<noteq> j \<and> scores i j > 0.3
      then similarity_inner scores (i, prod_id1) rest
             (set_item2 similarity prod_id1 prod_id2 (scores i j))
      else similarity_inner scores (i, prod_id1) rest similarity)"

fun similarity_outer ::
  "(nat \<Rightarrow> nat \<Rightarrow> real) \<Rightarrow> (nat \<times> int) list \<Rightarrow> (nat \<times> int) list \<Rightarrow> matrix \<Rightarrow> matrix" where
  "similarity_outer scores [] all_ids similarity = similarity"
| "similarity_outer scores (p # rest) all_ids similarity =
     similarity_outer scores rest all_ids (similarity_inner scores p all_ids similarity)"

definition build_similarity_matrix :: "ml_env \<Rightarrow> database \<Rightarrow> py_exception + matrix" where
  "build_similarity_matrix env conn =
     (if \<not> ml_available env then build_simple_similarity_matrix conn
      else
        (case products conn of
           None \<Rightarrow> Inl ProgrammingError
         | Some ps \<Rightarrow>
             (if length ps < 2 then Inr []
              else
                (let categories = remdups (List.map_filter
                        (\<lambda>p. if py_bool_opt_str (p_category p) then p_category p else None) ps);
                     brands = remdups (List.map_filter
                        (\<lambda>p. if py_bool_opt_str (p_brand p) then p_brand p else None) ps);
                     feature_vectors = map (feature_vector categories brands) ps;
                     product_ids = map p_id ps
                 in case similarity_scores env feature_vectors of
                      Inl e \<Rightarrow> Inl e
                    | Inr scores \<Rightarrow>
                        Inr (similarity_outer scores (enumerate 0 product_ids)
                                              (enumerate 0 product_ids) [])))))"

subsection \<open>\<^verbatim>\<open>_load_product_features\<close>, \<^verbatim>\<open>_save_models\<close>, \<^verbatim>\<open>_load_models\<close>\<close>

definition load_product_features :: "database \<Rightarrow> py_exception + features" where
  "load_product_features conn =
     (case products conn of
        None \<Rightarrow> Inl ProgrammingError
      | Some ps \<Rightarrow> Inr (fold (\<lambda>product features. AList.update (p_id product) product features) ps []))"

text \<open>
  \<^verbatim>\<open>_save_models\<close> writes the three files in turn and swallows any exception. When the
  write number \<open>k\<close> fails (\<open>save_fault w = Some k\<close>), the files before it are written, the
  file it opened with \<^verbatim>\<open>'wb'\<close> is left truncated and the files after it are not touched.
\<close>

definition save_models :: "service \<Rightarrow> world \<Rightarrow> world" where
  "save_models self w =
     (let d = model_files w;
          d0 = d\<lparr>similarity_pkl := Stored (similarity_matrix self)\<rparr>;
          d1 = d0\<lparr>copurchase_pkl := Stored (copurchase_matrix self)\<rparr>;
          d2 = d1\<lparr>features_pkl := Stored (product_features self)\<rparr>
      in case save_fault w of
           None \<Rightarrow> w\<lparr>model_files := d2\<rparr>
         | Some k \<Rightarrow>
             (if k = 0 then w\<lparr>model_files := d\<lparr>similarity_pkl := Unreadable\<rparr>\<rparr>
              else if k = 1 then w\<lparr>model_files := d0\<lparr>copurchase_pkl := Unreadable\<rparr>\<rparr>
              else if k = 2 then w\<lparr>model_files := d1\<lparr>features_pkl := Unreadable\<rparr>\<rparr>
              else w\<lparr>model_files := d2\<rparr>))"

text \<open>
  \<^verbatim>\<open>_load_models\<close>: nothing is read unless all three files exist; an unreadable file
  stops the loading with \<^verbatim>\<open>models_trained = False\<close>, the members read before it stay.
\<close>

definition load_models :: "model_dir \<Rightarrow> service \<Rightarrow> service" where
  "load_models d self =
     (if exists_pkl (similarity_pkl d) \<and> exists_pkl (copurchase_pkl d) \<and> exists_pkl (features_pkl d)
      then
        (case similarity_pkl d of
           Stored sm \<Rightarrow>
             (let self1 = self\<lparr>similarity_matrix := sm\<rparr> in
              case copurchase_pkl d of
                Stored cm \<Rightarrow>
                  (let self2 = self1\<lparr>copurchase_matrix := cm\<rparr> in
                   case features_pkl d of
                     Stored pf \<Rightarrow> self2\<lparr>product_features := pf, models_trained := True\<rparr>
                   | _ \<Rightarrow> self2\<lparr>models_trained := False\<rparr>)
              | _ \<Rightarrow> self1\<lparr>models_trained := False\<rparr>)
         | _ \<Rightarrow> self\<lparr>models_trained := False\<rparr>)
      else self)"

text \<open>\<^verbatim>\<open>MLRecommendationService.__init__\<close>, which \<^verbatim>\<open>get_ml_service\<close> runs for every request.\<close>

definition get_ml_service :: "world \<Rightarrow> service" where
  "get_ml_service w =
     load_models (model_files w)
       \<lparr> similarity_matrix = None, copurchase_matrix = None,
         product_features = [], models_trained = False \<rparr>"

subsection \<open>\<^verbatim>\<open>train_models\<close>\<close>

record train_result =
  products_count :: nat
  copurchase_pairs :: nat
  similarity_pairs :: nat

text \<open>
  The result is \<open>Inr\<close> for \<^verbatim>\<open>{"status": "success", ...}\<close> and \<open>Inl e\<close> for
  \<^verbatim>\<open>{"status": "error", "error": str(e)}\<close>. Each matrix is assigned to the service as soon
  as it is built.
\<close>

definition train_models :: "ml_env \<Rightarrow> service \<Rightarrow> world \<Rightarrow> (py_exception + train_result) \<times> service \<times> world" where
  "train_models env self w =
     (case get_connection Analytics w of
        (Inl e, w1) \<Rightarrow> (Inl e, self, w1)
      | (Inr conn, w1) \<Rightarrow>
          (case build_copurchase_matrix env conn of
             Inl e \<Rightarrow> (Inl e, self, w1)
           | Inr cm \<Rightarrow>
               (let self1 = self\<lparr>copurchase_matrix := Some cm\<rparr> in
                case build_similarity_matrix env conn of
                  Inl e \<Rightarrow> (Inl e, self1, w1)
                | Inr sm \<Rightarrow>
                    (let self2 = self1\<lparr>similarity_matrix := Some sm\<rparr> in
                     case load_product_features conn of
                       Inl e \<Rightarrow> (Inl e, self2, w1)
                     | Inr pf \<Rightarrow>
                         (let self3 = self2\<lparr>product_features := pf\<rparr>;
                              w2 = save_models self3 w1;
                              self4 = self3\<lparr>models_trained := True\<rparr>
                          in (Inr \<lparr> products_count = length pf,
                                    copurchase_pairs = length cm,
                                    similarity_pairs = length sm \<rparr>, self4, w2))))))"

subsection \<open>\<^verbatim>\<open>ProductRecommendation\<close>\<close>

datatype reason =
    SimilarML real
  | FrequentlyBoughtTogether real
  | SameCategoryAs string
  | OftenBoughtTogether nat

record recommendation =
  r_product_id :: int
  r_name :: string
  r_price :: real
  r_brand :: "string option"
  r_category :: "string option"
  r_rating :: "real option"
  r_picture :: "string option"
  r_score :: real
  r_reason :: reason

text \<open>
  The pydantic constructor, given the \<^verbatim>\<open>product_id\<close> and the row that the other fields
  are read from: \<^verbatim>\<open>price: float\<close> is required, so a row whose price is \<^verbatim>\<open>None\<close> raises
  a validation error.
\<close>

definition ProductRecommendation :: "int \<Rightarrow> product_row \<Rightarrow> real \<Rightarrow> reason \<Rightarrow> py_exception + recommendation" where
  "ProductRecommendation product_id product score why =
     (case p_price product of
        None \<Rightarrow> Inl ValidationError
      | Some price \<Rightarrow>
          Inr \<lparr> r_product_id = product_id, r_name = p_name product, r_price = price,
                r_brand = p_brand product, r_category = p_category product,
                r_rating = p_rating product, r_picture = p_picture product,
                r_score = score, r_reason = why \<rparr>)"

subsection \<open>The fallback queries on the production database\<close>

text \<open>\<^verbatim>\<open>LIMIT %s\<close>: MySQL rejects a negative count.\<close>

definition sql_limit :: "int \<Rightarrow> 'a list \<Rightarrow> py_exception + 'a list" where
  "sql_limit n rows = (if n < 0 then Inl ProgrammingError else Inr (take (nat n) rows))"

text \<open>
  \<^verbatim>\<open>ORDER BY rating DESC, price ASC\<close>; a \<^verbatim>\<open>NULL\<close> sorts last when descending and first
  when ascending.
\<close>

definition rating_price_key :: "product_row \<Rightarrow> (nat \<times> real) \<times> (nat \<times> real)" where
  "rating_price_key p =
     ((case p_rating p of None \<Rightarrow> (1, 0) | Some r \<Rightarrow> (0, - r)),
      (case p_price p of None \<Rightarrow> (0, 0) | Some x \<Rightarrow> (1, x)))"

definition in_stock :: "product_row \<Rightarrow> bool" where
  "in_stock p = (case p_stock p of None \<Rightarrow> False | Some n \<Rightarrow> n > 0)"

text \<open>
  \<^verbatim>\<open>SELECT * FROM products WHERE category = %s AND id != %s AND stock > 0\<close>
  \<^verbatim>\<open>ORDER BY rating DESC, price ASC LIMIT %s\<close>; a \<^verbatim>\<open>NULL\<close> category equals nothing.
\<close>

definition same_category_query :: "database \<Rightarrow> string option \<Rightarrow> int \<Rightarrow> int \<Rightarrow> py_exception + product_row list" where
  "same_category_query conn category product_id limit =
     (case products conn of
        None \<Rightarrow> Inl ProgrammingError
      | Some ps \<Rightarrow>
          sql_limit limit
            (sort_key rating_price_key
               (filter (\<lambda>p. category \<noteq> None \<and> p_category p = category \<and> p_id p \<noteq> product_id \<and> in_stock p) ps)))"

fun fallback_similar_recommendations :: "string \<Rightarrow> product_row list \<Rightarrow> py_exception + recommendation list" where
  "fallback_similar_recommendations original_name [] = Inr []"
| "fallback_similar_recommendations original_name (product # rest) =
     (case ProductRecommendation (p_id product) product 0.6 (SameCategoryAs original_name) of
        Inl e \<Rightarrow> Inl e
      | Inr r \<Rightarrow>
          (case fallback_similar_recommendations original_name rest of
             Inl e \<Rightarrow> Inl e
           | Inr rs \<Rightarrow> Inr (r # rs)))"

text \<open>The body of the \<^verbatim>\<open>try\<close> of \<^verbatim>\<open>_get_fallback_similar_products\<close>, after the connection.\<close>

definition fallback_similar_body :: "database \<Rightarrow> int \<Rightarrow> int \<Rightarrow> py_exception + recommendation list" where
  "fallback_similar_body conn product_id limit =
     (case products conn of
        None \<Rightarrow> Inl ProgrammingError
      | Some ps \<Rightarrow>
          (case find (\<lambda>p. p_id p = product_id) ps of
             None \<Rightarrow> Inr []
           | Some original \<Rightarrow>
               (case same_category_query conn (p_category original) product_id limit of
                  Inl e \<Rightarrow> Inl e
                | Inr results \<Rightarrow> fallback_similar_recommendations (p_name original) results)))"

definition get_fallback_similar_products :: "world \<Rightarrow> int \<Rightarrow> int \<Rightarrow> recommendation list \<times> world" where
  "get_fallback_similar_products w product_id limit =
     (case get_connection Production w of
        (Inl e, w') \<Rightarrow> ([], w')
      | (Inr conn, w') \<Rightarrow>
          (case fallback_similar_body conn product_id limit of
             Inl e \<Rightarrow> ([], w')
           | Inr recommendations \<Rightarrow> (recommendations, w')))"

text \<open>
  \<^verbatim>\<open>SELECT p.*, COUNT(*) as purchase_count FROM products p\<close>
  \<^verbatim>\<open>JOIN orderitem oi1 ON p.id = oi1.product_id JOIN orderitem oi2 ON oi1.order_id = oi2.order_id\<close>
  \<^verbatim>\<open>WHERE oi2.product_id = %s AND p.id != %s AND p.stock > 0\<close>
  \<^verbatim>\<open>GROUP BY p.id ORDER BY purchase_count DESC LIMIT %s\<close>.
\<close>

definition purchase_count :: "orderitem_row list \<Rightarrow> int \<Rightarrow> int \<Rightarrow> nat" where
  "purchase_count items p product_id =
     length (filter (\<lambda>(oi1, oi2). oi_product_id oi1 = p \<and> oi_order_id oi1 = oi_order_id oi2
                                   \<and> oi_product_id oi2 = product_id)
                    (List.product items items))"

definition bought_with_query :: "database \<Rightarrow> int \<Rightarrow> int \<Rightarrow> py_exception + (product_row \<times> nat) list" where
  "bought_with_query conn product_id limit =
     (case products conn of
        None \<Rightarrow> Inl ProgrammingError
      | Some ps \<Rightarrow>
          (case orderitem conn of
             None \<Rightarrow> Inl ProgrammingError
           | Some items \<Rightarrow>
               sql_limit limit
                 (sort_key (\<lambda>(p, c). - int c)
                    (filter (\<lambda>(p, c). c > 0)
                       (map (\<lambda>p. (p, purchase_count items (p_id p) product_id))
                            (filter (\<lambda>p. p_id p \<noteq> product_id \<and> in_stock p) ps))))))"

fun fallback_copurchase_recommendations :: "(product_row \<times> nat) list \<Rightarrow> py_exception + recommendation list" where
  "fallback_copurchase_recommendations [] = Inr []"
| "fallback_copurchase_recommendations ((product, c) # rest) =
     (case ProductRecommendation (p_id product) product 0.7 (OftenBoughtTogether c) of
        Inl e \<Rightarrow> Inl e
      | Inr r \<Rightarrow>
          (case fallback_copurchase_recommendations rest of
             Inl e \<Rightarrow> Inl e
           | Inr rs \<Rightarrow> Inr (r # rs)))"

definition get_fallback_copurchase_recommendations :: "world \<Rightarrow> int \<Rightarrow> int \<Rightarrow> recommendation list \<times> world" where
  "get_fallback_copurchase_recommendations w product_id limit =
     (case get_connection Production w of
        (Inl e, w') \<Rightarrow> ([], w')
      | (Inr conn, w') \<Rightarrow>
          (case bought_with_query conn product_id limit of
             Inl e \<Rightarrow> ([], w')
           | Inr results \<Rightarrow>
               (case fallback_copurchase_recommendations results of
                  Inl e \<Rightarrow> ([], w')
                | Inr recommendations \<Rightarrow> (recommendations, w'))))"

subsection \<open>\<^verbatim>\<open>get_similar_products\<close> and \<^verbatim>\<open>get_copurchase_recommendations\<close> of the service\<close>

text \<open>
  The loop over \<^verbatim>\<open>sorted_similar\<close>: an id without a feature row is skipped, a feature
  row that the constructor rejects raises.
\<close>

fun similar_recommendations :: "features \<Rightarrow> (int \<times> real) list \<Rightarrow> py_exception + recommendation list" where
  "similar_recommendations pf [] = Inr []"
| "similar_recommendations pf ((similar_id, score) # rest) =
     (case map_of pf similar_id of
        None \<Rightarrow> similar_recommendations pf rest
      | Some product \<Rightarrow>
          (case ProductRecommendation similar_id product score (SimilarML score) of
             Inl e \<Rightarrow> Inl e
           | Inr r \<Rightarrow>
               (case similar_recommendations pf rest of
                  Inl e \<Rightarrow> Inl e
                | Inr rs \<Rightarrow> Inr (r # rs))))"

text \<open>
  With \<^verbatim>\<open>models_trained\<close> set, everything else runs in a \<^verbatim>\<open>try\<close> whose handler is the
  fallback; a matrix that is \<^verbatim>\<open>None\<close> makes \<^verbatim>\<open>product_id not in None\<close> raise.
\<close>

definition get_similar_products :: "service \<Rightarrow> world \<Rightarrow> int \<Rightarrow> int \<Rightarrow> recommendation list \<times> world" where
  "get_similar_products self w product_id limit =
     (if \<not> models_trained self then get_fallback_similar_products w product_id limit
      else
        (case similarity_matrix self of
           None \<Rightarrow> get_fallback_similar_products w product_id limit
         | Some m \<Rightarrow>
             (case map_of m product_id of
                None \<Rightarrow> get_fallback_similar_products w product_id limit
              | Some similar \<Rightarrow>
                  (let sorted_similar = py_slice_to (sorted_desc similar) limit in
                   case similar_recommendations (product_features self) sorted_similar of
                     Inl e \<Rightarrow> get_fallback_similar_products w product_id limit
                   | Inr recommendations \<Rightarrow> (recommendations, w)))))"

definition max_freq :: "(int \<times> real) list \<Rightarrow> real" where
  "max_freq copurchased = (case map snd copurchased of [] \<Rightarrow> 1 | v # vs \<Rightarrow> fold max vs v)"

fun copurchase_recommendations ::
  "features \<Rightarrow> (int \<times> real) list \<Rightarrow> (int \<times> real) list \<Rightarrow> py_exception + recommendation list" where
  "copurchase_recommendations pf copurchased [] = Inr []"
| "copurchase_recommendations pf copurchased ((copurch_id, frequency) # rest) =
     (case map_of pf copurch_id of
        None \<Rightarrow> copurchase_recommendations pf copurchased rest
      | Some product \<Rightarrow>
          (if max_freq copurchased = 0 then Inl ZeroDivisionError
           else
             (case ProductRecommendation copurch_id product (frequency / max_freq copurchased)
                     (FrequentlyBoughtTogether frequency) of
                Inl e \<Rightarrow> Inl e
              | Inr r \<Rightarrow>
                  (case copurchase_recommendations pf copurchased rest of
                     Inl e \<Rightarrow> Inl e
                   | Inr rs \<Rightarrow> Inr (r # rs)))))"

definition get_copurchase_recommendations :: "service \<Rightarrow> world \<Rightarrow> int \<Rightarrow> int \<Rightarrow> recommendation list \<times> world" where
  "get_copurchase_recommendations self w product_id limit =
     (if \<not> models_trained self then get_fallback_copurchase_recommendations w product_id limit
      else
        (case copurchase_matrix self of
           None \<Rightarrow> get_fallback_copurchase_recommendations w product_id limit
         | Some m \<Rightarrow>
             (case map_of m product_id of
                None \<Rightarrow> get_fallback_copurchase_recommendations w product_id limit
              | Some copurchased \<Rightarrow>
                  (let sorted_copurchased = py_slice_to (sorted_desc copurchased) limit in
                   case copurchase_recommendations (product_features self) copurchased sorted_copurchased of
                     Inl e \<Rightarrow> get_fallback_copurchase_recommendations w product_id limit
                   | Inr recommendations \<Rightarrow> (recommendations, w)))))"

subsection \<open>The endpoints of \<^verbatim>\<open>main.py\<close>\<close>

text \<open>
  \<^verbatim>\<open>GET /similar/{product_id}\<close> (\<^verbatim>\<open>get_similar_products\<close> of \<^verbatim>\<open>main.py\<close>) and
  \<^verbatim>\<open>GET /copurchase/{product_id}\<close> (\<^verbatim>\<open>get_copurchase_recommendations\<close> of \<^verbatim>\<open>main.py\<close>).
  The service is built by the dependency \<^verbatim>\<open>get_ml_service\<close> before the body runs. The
  \<^verbatim>\<open>raise HTTPException(status_code=404)\<close> stands inside the \<^verbatim>\<open>try\<close> whose handler is
  \<^verbatim>\<open>except Exception\<close>, and \<^verbatim>\<open>HTTPException\<close> is an \<^verbatim>\<open>Exception\<close>.
\<close>

definition api_get_similar_products :: "world \<Rightarrow> int \<Rightarrow> int \<Rightarrow> (py_exception + recommendation list) \<times> world" where
  "api_get_similar_products w product_id limit =
     (let service = get_ml_service w in
      if limit > 50 then (Inl (HTTPException 400 LimitCannotExceed50), w)
      else
        (case get_similar_products service w product_id limit of
           (recommendations, w') \<Rightarrow>
             (let attempt = (if recommendations = []
                             then Inl (HTTPException 404 (NoSimilarProductsFound product_id))
                             else Inr recommendations)
              in case attempt of
                   Inl e \<Rightarrow> (Inl (HTTPException 500 (ErrorGettingSimilar e)), w')
                 | Inr r \<Rightarrow> (Inr r, w'))))"

definition api_get_copurchase_recommendations :: "world \<Rightarrow> int \<Rightarrow> int \<Rightarrow> (py_exception + recommendation list) \<times> world" where
  "api_get_copurchase_recommendations w product_id limit =
     (let service = get_ml_service w in
      if limit > 50 then (Inl (HTTPException 400 LimitCannotExceed50), w)
      else
        (case get_copurchase_recommendations service w product_id limit of
           (recommendations, w') \<Rightarrow>
             (let attempt = (if recommendations = []
                             then Inl (HTTPException 404 (NoCopurchaseFound product_id))
                             else Inr recommendations)
              in case attempt of
                   Inl e \<Rightarrow> (Inl (HTTPException 500 (ErrorGettingCopurchase e)), w')
                 | Inr r \<Rightarrow> (Inr r, w'))))"

definition status_code :: "py_exception + 'a \<Rightarrow> int" where
  "status_code response =
     (case response of Inl (HTTPException code d) \<Rightarrow> code | Inl e \<Rightarrow> 500 | Inr r \<Rightarrow> 200)"

subsection \<open>\<^verbatim>\<open>sync_production_data\<close>\<close>

text \<open>
  \<^verbatim>\<open>execute_script\<close> runs the four \<^verbatim>\<open>CREATE TABLE IF NOT EXISTS\<close> statements on a
  connection of its own. Data definition statements take effect at once, so the tables
  created before a failing statement stay.
\<close>

definition create_table :: "table \<Rightarrow> database \<Rightarrow> database" where
  "create_table t db =
     (case t of
        Users \<Rightarrow> (if users db = None then db\<lparr>users := Some []\<rparr> else db)
      | Products \<Rightarrow> (if products db = None then db\<lparr>products := Some []\<rparr> else db)
      | Orders \<Rightarrow> (if orders db = None then db\<lparr>orders := Some []\<rparr> else db)
      | Orderitem \<Rightarrow> (if orderitem db = None then db\<lparr>orderitem := Some []\<rparr> else db))"

fun create_tables :: "(sync_stmt \<Rightarrow> bool) \<Rightarrow> table list \<Rightarrow> database \<Rightarrow> py_exception option \<times> database" where
  "create_tables fault [] db = (None, db)"
| "create_tables fault (t # ts) db =
     (if fault (CreateTable t) then (Some OperationalError, db)
      else create_tables fault ts (create_table t db))"

definition all_tables :: "table list" where
  "all_tables = [Users, Products, Orders, Orderitem]"

definition execute_script :: "world \<Rightarrow> py_exception option \<times> world" where
  "execute_script w =
     (case get_connection Analytics w of
        (Inl e, w1) \<Rightarrow> (Some e, w1)
      | (Inr conn, w1) \<Rightarrow>
          (case create_tables (sync_fault w1) all_tables conn of
             (outcome, db) \<Rightarrow> (outcome, w1\<lparr>analytics := db\<rparr>)))"

text \<open>\<^verbatim>\<open>DELETE FROM {table}\<close> on the connection to the mirror.\<close>

definition delete_from :: "(sync_stmt \<Rightarrow> bool) \<Rightarrow> table \<Rightarrow> database \<Rightarrow> py_exception + database" where
  "delete_from fault t db =
     (if fault (DeleteFrom t) then Inl OperationalError
      else
        (case t of
           Users \<Rightarrow> (if users db = None then Inl ProgrammingError else Inr (db\<lparr>users := Some []\<rparr>))
         | Products \<Rightarrow> (if products db = None then Inl ProgrammingError else Inr (db\<lparr>products := Some []\<rparr>))
         | Orders \<Rightarrow> (if orders db = None then Inl ProgrammingError else Inr (db\<lparr>orders := Some []\<rparr>))
         | Orderitem \<Rightarrow> (if orderitem db = None then Inl ProgrammingError else Inr (db\<lparr>orderitem := Some []\<rparr>))))"

fun delete_all :: "(sync_stmt \<Rightarrow> bool) \<Rightarrow> table list \<Rightarrow> database \<Rightarrow> py_exception + database" where
  "delete_all fault [] db = Inr db"
| "delete_all fault (t # ts) db =
     (case delete_from fault t db of
        Inl e \<Rightarrow> Inl e
      | Inr db' \<Rightarrow> delete_all fault ts db')"

text \<open>A \<^verbatim>\<open>SELECT\<close> on the production connection.\<close>

definition select_from :: "(sync_stmt \<Rightarrow> bool) \<Rightarrow> table \<Rightarrow> 'r list option \<Rightarrow> py_exception + 'r list" where
  "select_from fault t content =
     (if fault (SelectFrom t) then Inl OperationalError
      else (case content of None \<Rightarrow> Inl ProgrammingError | Some rows \<Rightarrow> Inr rows))"

text \<open>
  One \<^verbatim>\<open>INSERT\<close> per row, in the order read; \<^verbatim>\<open>id INT PRIMARY KEY\<close> rejects an id
  that the table holds already.
\<close>

fun insert_all :: "(sync_stmt \<Rightarrow> bool) \<Rightarrow> table \<Rightarrow> ('r \<Rightarrow> int) \<Rightarrow> 'r list \<Rightarrow> 'r list \<Rightarrow> py_exception + 'r list" where
  "insert_all fault t key [] content = Inr content"
| "insert_all fault t key (r # rs) content =
     (if fault (InsertInto t (key r)) then Inl OperationalError
      else if key r \<in> set (map key content) then Inl IntegrityError
      else insert_all fault t key rs (content @ [r]))"

definition insert_into :: "(sync_stmt \<Rightarrow> bool) \<Rightarrow> table \<Rightarrow> ('r \<Rightarrow> int) \<Rightarrow> 'r list \<Rightarrow> 'r list option \<Rightarrow> py_exception + 'r list" where
  "insert_into fault t key rows content =
     (case content of
        None \<Rightarrow> Inl ProgrammingError
      | Some existing \<Rightarrow> insert_all fault t key rows existing)"

text \<open>\<^verbatim>\<open>(user['id'], user['name'], user['email'], 'synced', 'customer', None)\<close>.\<close>

definition synced_user :: "user_row \<Rightarrow> user_row" where
  "synced_user user =
     \<lparr> u_id = u_id user, u_name = u_name user, u_email = u_email user,
       u_password = Some ''synced'', u_role = Some ''customer'', u_sort_option = None \<rparr>"

record sync_stats =
  users_synced :: nat
  products_synced :: nat
  orders_synced :: nat
  order_items_synced :: nat

text \<open>
  The statements between the two connections and \<^verbatim>\<open>analytics_conn.commit()\<close>, on the
  uncommitted view \<open>a\<close> of the mirror.
\<close>

definition sync_transaction :: "(sync_stmt \<Rightarrow> bool) \<Rightarrow> database \<Rightarrow> database \<Rightarrow> py_exception + database \<times> sync_stats" where
  "sync_transaction fault source a =
     (case delete_all fault all_tables a of
        Inl e \<Rightarrow> Inl e
      | Inr a0 \<Rightarrow>
     (case select_from fault Users (users source) of
        Inl e \<Rightarrow> Inl e
      | Inr us \<Rightarrow>
     (case insert_into fault Users u_id (map synced_user us) (users a0) of
        Inl e \<Rightarrow> Inl e
      | Inr us' \<Rightarrow>
     (case select_from fault Products (products source) of
        Inl e \<Rightarrow> Inl e
      | Inr ps \<Rightarrow>
     (case insert_into fault Products p_id ps (products a0) of
        Inl e \<Rightarrow> Inl e
      | Inr ps' \<Rightarrow>
     (case select_from fault Orders (orders source) of
        Inl e \<Rightarrow> Inl e
      | Inr os \<Rightarrow>
     (case insert_into fault Orders o_id os (orders a0) of
        Inl e \<Rightarrow> Inl e
      | Inr os' \<Rightarrow>
     (case select_from fault Orderitem (orderitem source) of
        Inl e \<Rightarrow> Inl e
      | Inr items \<Rightarrow>
     (case insert_into fault Orderitem oi_id items (orderitem a0) of
        Inl e \<Rightarrow> Inl e
      | Inr items' \<Rightarrow>
          Inr (\<lparr> users = Some us', products = Some ps', orders = Some os', orderitem = Some items' \<rparr>,
               \<lparr> users_synced = length us, products_synced = length ps,
                 orders_synced = length os, order_items_synced = length items \<rparr>))))))))))"

text \<open>
  \<open>Inr stats\<close> is \<^verbatim>\<open>{"status": "success", "stats": stats}\<close>, \<open>Inl e\<close> is
  \<^verbatim>\<open>{"status": "error", "error": str(e)}\<close>. The \<^verbatim>\<open>finally\<close> closes both connections;
  what the connection to the mirror has not committed is discarded with it.
\<close>

definition sync_production_data :: "world \<Rightarrow> (py_exception + sync_stats) \<times> world" where
  "sync_production_data w =
     (case execute_script w of
        (Some e, w1) \<Rightarrow> (Inl e, w1)
      | (None, w1) \<Rightarrow>
          (case get_connection Production w1 of
             (Inl e, w2) \<Rightarrow> (Inl e, w2)
           | (Inr prod_conn, w2) \<Rightarrow>
               (case get_connection Analytics w2 of
                  (Inl e, w3) \<Rightarrow> (Inl e, w3)
                | (Inr analytics_conn, w3) \<Rightarrow>
                    (case sync_transaction (sync_fault w3) prod_conn analytics_conn of
                       Inl e \<Rightarrow> (Inl e, w3)
                     | Inr (a, stats) \<Rightarrow>
                         (if sync_fault w3 Commit then (Inl OperationalError, w3)
                          else (Inr stats, w3\<lparr>analytics := a\<rparr>))))))"

subsection \<open>Example data\<close>

definition mk_product :: "int \<Rightarrow> string \<Rightarrow> real \<Rightarrow> string \<Rightarrow> string \<Rightarrow> product_row" where
  "mk_product i name price brand category =
     \<lparr> p_id = i, p_name = name, p_price = Some price, p_brand = Some brand,
       p_category = Some category, p_rating = Some 4, p_picture = None, p_stock = Some 5 \<rparr>"

definition mk_line :: "int \<Rightarrow> int \<Rightarrow> int \<Rightarrow> orderitem_row" where
  "mk_line i order_id product_id =
     \<lparr> oi_id = i, oi_order_id = order_id, oi_product_id = product_id,
       oi_quantity = 1, oi_total_amount = 10 \<rparr>"

definition mk_order :: "int \<Rightarrow> int \<Rightarrow> order_row" where
  "mk_order i customer =
     \<lparr> o_id = i, o_customer_id = customer, o_total_amount = 10, o_created_at = ''2025-01-01'' \<rparr>"

definition empty_db :: database where
  "empty_db = \<lparr> users = Some [], products = Some [], orders = Some [], orderitem = Some [] \<rparr>"

definition no_files :: model_dir where
  "no_files = \<lparr> similarity_pkl = Missing, copurchase_pkl = Missing, features_pkl = Missing \<rparr>"

definition mk_world :: "database \<Rightarrow> database \<Rightarrow> model_dir \<Rightarrow> world" where
  "mk_world p a d =
     \<lparr> production = p, analytics = a, reachable = (\<lambda>s. True), sync_fault = (\<lambda>s. False),
       save_fault = None, model_files = d, connections = [] \<rparr>"

definition empty_trained_service :: service where
  "empty_trained_service =
     \<lparr> similarity_matrix = Some [], copurchase_matrix = Some [],
       product_features = [], models_trained = True \<rparr>"

text \<open>A world whose production database refuses connections.\<close>

definition production_down :: world where
  "production_down = (mk_world empty_db empty_db no_files)\<lparr>reachable := (\<lambda>s. s = Analytics)\<rparr>"

text \<open>
  A catalog whose table lists product 3 before product 2, and a trained service whose
  similarity row of product 1 holds two neighbours with the same score.
\<close>

definition catalog :: "product_row list" where
  "catalog = [mk_product 1 ''Phone A'' 100 ''X'' ''phone'',
              mk_product 3 ''Phone C'' 90 ''Z'' ''phone'',
              mk_product 2 ''Phone B'' 120 ''X'' ''phone'',
              mk_product 4 ''Case'' 10 ''Y'' ''case'']"

definition catalog_features :: features where
  "catalog_features = map (\<lambda>p. (p_id p, p)) catalog"

definition catalog_db :: database where
  "catalog_db = \<lparr> users = Some [], products = Some catalog, orders = Some [], orderitem = Some [] \<rparr>"

definition tied_service :: service where
  "tied_service =
     \<lparr> similarity_matrix = Some [(1, [(3, 0.5), (2, 0.5), (4, 0.9)])],
       copurchase_matrix = Some [(1, [(3, 2), (2, 4)])],
       product_features = catalog_features, models_trained = True \<rparr>"

definition tied_files :: model_dir where
  "tied_files =
     \<lparr> similarity_pkl = Stored (similarity_matrix tied_service),
       copurchase_pkl = Stored (copurchase_matrix tied_service),
       features_pkl = Stored (product_features tied_service) \<rparr>"

definition tied_world :: world where
  "tied_world = mk_world catalog_db empty_db tied_files"

text \<open>
  A mirror with two orders of customer 7, each holding products 1 and 2; numeric libraries
  whose similarity pipeline raises (as scikit-learn does when it cannot fit the reduction);
  a world whose model directory holds the artifact of \<open>tied_service\<close>.
\<close>

definition two_orders_db :: database where
  "two_orders_db =
     \<lparr> users = Some [], products = Some catalog,
       orders = Some [mk_order 1 7, mk_order 2 7],
       orderitem = Some [mk_line 1 1 1, mk_line 2 1 2, mk_line 3 2 1, mk_line 4 2 2] \<rparr>"

definition failing_pca :: ml_env where
  "failing_pca =
     \<lparr> ml_available = True,
       item_embedding = (\<lambda>M i. [1, 0]),
       cosine_similarity = (\<lambda>E. Inr (\<lambda>i j. 0.5)),
       similarity_scores = (\<lambda>X. Inl ValueError) \<rparr>"

definition retrain_world :: world where
  "retrain_world = mk_world catalog_db two_orders_db tied_files"

text \<open>Production databases for a sync: one without its \<^verbatim>\<open>orderitem\<close> table, one complete.\<close>

definition mk_user :: "int \<Rightarrow> string \<Rightarrow> user_row" where
  "mk_user i name =
     \<lparr> u_id = i, u_name = name, u_email = name @ ''@example.org'',
       u_password = Some ''hash'', u_role = Some ''admin'', u_sort_option = None \<rparr>"

definition broken_source :: database where
  "broken_source =
     \<lparr> users = Some [mk_user 7 ''ann''], products = Some catalog,
       orders = Some [mk_order 1 7], orderitem = None \<rparr>"

definition good_source :: database where
  "good_source =
     \<lparr> users = Some [mk_user 7 ''ann''], products = Some catalog,
       orders = Some [mk_order 1 7], orderitem = Some [mk_line 1 1 4] \<rparr>"

subsection \<open>Notions used in the statements\<close>

text \<open>The rows of a table; a table that does not exist has none.\<close>

definition rows_of :: "'r list option \<Rightarrow> 'r list" where
  "rows_of t = (case t of None \<Rightarrow> [] | Some rows \<Rightarrow> rows)"

text \<open>
  \<open>same_content a b\<close>: database \<open>b\<close> holds the rows of \<open>a\<close> table by table, and every
  table of \<open>a\<close> is a table of \<open>b\<close> unchanged.
\<close>

definition same_content :: "database \<Rightarrow> database \<Rightarrow> bool" where
  "same_content a b \<longleftrightarrow>
     rows_of (users b) = rows_of (users a) \<and> rows_of (products b) = rows_of (products a) \<and>
     rows_of (orders b) = rows_of (orders a) \<and> rows_of (orderitem b) = rows_of (orderitem a) \<and>
     (users a \<noteq> None \<longrightarrow> users b = users a) \<and>
     (products a \<noteq> None \<longrightarrow> products b = products a) \<and>
     (orders a \<noteq> None \<longrightarrow> orders b = orders a) \<and>
     (orderitem a \<noteq> None \<longrightarrow> orderitem b = orderitem a)"

text \<open>
  The number of distinct orders that list both product \<open>a\<close> and product \<open>b\<close>: the
  weight of a co-purchase edge as the specification words it.
\<close>

definition orders_together :: "orderitem_row list \<Rightarrow> int \<Rightarrow> int \<Rightarrow> nat" where
  "orders_together items a b =
     length (remdups (map oi_order_id
       (filter (\<lambda>x. oi_product_id x = a \<and>
                  list_ex (\<lambda>y. oi_order_id y = oi_order_id x \<and> oi_product_id y = b) items) items)))"

text \<open>A mirror whose only order lists product 1 on two lines and product 2 on one.\<close>

definition doubled_line_db :: database where
  "doubled_line_db =
     \<lparr> users = Some [], products = Some catalog, orders = Some [mk_order 1 7],
       orderitem = Some [mk_line 1 1 1, mk_line 2 1 1, mk_line 3 1 2] \<rparr>"

text \<open>
  The fallback similarity score as the specification words it: 0.4 for the same category,
  0.3 for the same brand, 0.2 times one minus the relative price difference when both
  prices are known, capped at 1.
\<close>

definition spec_fallback_score :: "product_row \<Rightarrow> product_row \<Rightarrow> real" where
  "spec_fallback_score a b =
     min ((if p_category a = p_category b then 0.4 else 0) +
          (if p_brand a = p_brand b then 0.3 else 0) +
          (case (p_price a, p_price b) of
             (Some x, Some y) \<Rightarrow> 0.2 * (1 - \<bar>x - y\<bar> / max x y)
           | _ \<Rightarrow> 0)) 1"

text \<open>
  The pairs for which the scorer reaches its price term: both prices are known, neither
  is zero and the larger is positive. And the score without the price term.
\<close>

definition reaches_price_term :: "product_row \<Rightarrow> product_row \<Rightarrow> bool" where
  "reaches_price_term a b =
     (case (p_price a, p_price b) of
        (Some x, Some y) \<Rightarrow> x \<noteq> 0 \<and> y \<noteq> 0 \<and> 0 < max x y
      | _ \<Rightarrow> False)"

definition category_brand_score :: "product_row \<Rightarrow> product_row \<Rightarrow> real" where
  "category_brand_score a b =
     (if p_category a = p_category b then 0.4 else 0) + (if p_brand a = p_brand b then 0.3 else 0)"

text \<open>
  Three items free of charge: 1 and 2 share the brand only, 1 and 3 the category only,
  2 and 3 nothing.
\<close>

definition free_items :: "product_row list" where
  "free_items = [mk_product 1 ''Sticker'' 0 ''X'' ''accessory'',
                 mk_product 2 ''Leaflet'' 0 ''X'' ''paper'',
                 mk_product 3 ''Badge'' 0 ''Y'' ''accessory'']"

text \<open>A mirror without its tables, in a world whose production database refuses connections.\<close>

definition no_tables :: database where
  "no_tables = \<lparr> users = None, products = None, orders = None, orderitem = None \<rparr>"

definition fresh_mirror :: world where
  "fresh_mirror = (mk_world empty_db no_tables no_files)\<lparr>reachable := (\<lambda>s. s = Analytics)\<rparr>"



text \<open>The service as \<^verbatim>\<open>__init__\<close> sets it up, before any model is loaded.\<close>

definition untrained_service :: service where
  "untrained_service =
     \<lparr> similarity_matrix = None, copurchase_matrix = None,
       product_features = [], models_trained = False \<rparr>"

text \<open>A matrix without an edge from a product to itself.\<close>

definition no_self_edges :: "matrix \<Rightarrow> bool" where
  "no_self_edges m = (\<forall>a. lookup2 m a a = None)"

text \<open>
  The neighbours of a product in the order in which its row stores them, and the matrices
  whose rows all store their neighbours by ascending id.
\<close>

definition row_keys :: "matrix \<Rightarrow> int \<Rightarrow> int list" where
  "row_keys m a = map fst (case map_of m a of None \<Rightarrow> [] | Some row \<Rightarrow> row)"

definition rows_ascending :: "matrix \<Rightarrow> bool" where
  "rows_ascending m = (\<forall>a. sorted_wrt (<) (row_keys m a))"

text \<open>An installation without numpy and scikit-learn: every matrix is built by the rules.\<close>

definition no_ml :: ml_env where
  "no_ml =
     \<lparr> ml_available = False,
       item_embedding = (\<lambda>M i. []),
       cosine_similarity = (\<lambda>E. Inl ValueError),
       similarity_scores = (\<lambda>X. Inl ValueError) \<rparr>"

text \<open>
  A catalog of three accessories of one brand, two of them free of charge, as a products
  table that lists product 3 before product 2 and as one that lists them by ascending id;
  a world whose two databases hold such a table and no orders; and the services that a
  training run without the libraries leaves behind on them.
\<close>

definition twins :: "product_row list" where
  "twins = [mk_product 1 ''Phone case'' 15 ''X'' ''accessory'',
            mk_product 3 ''Sticker black'' 0 ''X'' ''accessory'',
            mk_product 2 ''Sticker white'' 0 ''X'' ''accessory'']"

definition twins_by_id :: "product_row list" where
  "twins_by_id = [mk_product 1 ''Phone case'' 15 ''X'' ''accessory'',
                  mk_product 2 ''Sticker white'' 0 ''X'' ''accessory'',
                  mk_product 3 ''Sticker black'' 0 ''X'' ''accessory'']"

definition twin_world :: "product_row list \<Rightarrow> world" where
  "twin_world ps = mk_world (empty_db\<lparr>products := Some ps\<rparr>) (empty_db\<lparr>products := Some ps\<rparr>) no_files"

definition twin_trained :: service where
  "twin_trained =
     \<lparr> similarity_matrix =
         Some [(1, [(3, 7 / 10), (2, 7 / 10)]), (3, [(1, 7 / 10), (2, 7 / 10)]),
               (2, [(1, 7 / 10), (3, 7 / 10)])],
       copurchase_matrix = Some [],
       product_features = map (\<lambda>p. (p_id p, p)) twins, models_trained = True \<rparr>"

definition twin_trained_by_id :: service where
  "twin_trained_by_id =
     \<lparr> similarity_matrix =
         Some [(1, [(2, 7 / 10), (3, 7 / 10)]), (2, [(1, 7 / 10), (3, 7 / 10)]),
               (3, [(1, 7 / 10), (2, 7 / 10)])],
       copurchase_matrix = Some [],
       product_features = map (\<lambda>p. (p_id p, p)) twins_by_id, models_trained = True \<rparr>"

section \<open>Properties\<close>

subsection \<open>Health\<close>

lemma check_store_nonempty: "fst (check_store s w) \<noteq> []"
  by (auto simp: check_store_def get_connection_def)

lemma health_status_trained_only:
  "h_status (fst (get_health_status self w)) =
     (if models_trained self then ''healthy'' else ''degraded'')"
proof -
  obtain a w1 where 1: "check_store Production w = (a, w1)" by (cases "check_store Production w")
  obtain b w2 where 2: "check_store Analytics w1 = (b, w2)" by (cases "check_store Analytics w1")
  have "a \<noteq> []" using check_store_nonempty[of Production w] 1 by simp
  moreover have "b \<noteq> []" using check_store_nonempty[of Analytics w1] 2 by simp
  ultimately show ?thesis
    by (simp add: get_health_status_def 1 2 py_all_str_def py_bool_str_def)
qed

text \<open>
  C4. The health report should say \<^verbatim>\<open>"healthy"\<close> only when the models are trained and
  both stores answer. \<^verbatim>\<open>all(db_status.values())\<close> tests strings that are never empty,
  so with trained models and the production store refusing connections the report
  carries the error for production and still says \<^verbatim>\<open>"healthy"\<close>.
\<close>

theorem health_healthy_with_production_down:
  "h_status (fst (get_health_status empty_trained_service production_down)) = ''healthy'' \<and>
   map_of (h_database_status (fst (get_health_status empty_trained_service production_down)))
     ''production'' = Some ''error: OperationalError''"
  by (simp add: get_health_status_def check_store_def get_connection_def production_down_def
      mk_world_def empty_trained_service_def py_all_str_def py_bool_str_def log_connection_def)

subsection \<open>The endpoints\<close>

lemma api_similar_status:
  "status_code (fst (api_get_similar_products w product_id limit)) \<in> {200, 400, 500}"
  by (auto simp: api_get_similar_products_def status_code_def Let_def split: prod.splits)

lemma api_copurchase_status:
  "status_code (fst (api_get_copurchase_recommendations w product_id limit)) \<in> {200, 400, 500}"
  by (auto simp: api_get_copurchase_recommendations_def status_code_def Let_def split: prod.splits)

text \<open>
  C7. Every limit above 50 is answered with the validation error (400) by both endpoints,
  and the world comes back as it was: no connection to the production or the analytics
  database has been opened. (The service object that the dependency builds for the request
  reads the model files of the model directory; that is not a database.)
\<close>

theorem limit_above_50_rejected_without_store_access:
  assumes "50 < limit"
  shows "api_get_similar_products w product_id limit =
           (Inl (HTTPException 400 LimitCannotExceed50), w) \<and>
         api_get_copurchase_recommendations w product_id limit =
           (Inl (HTTPException 400 LimitCannotExceed50), w) \<and>
         status_code (fst (api_get_similar_products w product_id limit)) = 400 \<and>
         status_code (fst (api_get_copurchase_recommendations w product_id limit)) = 400 \<and>
         connections (snd (api_get_similar_products w product_id limit)) = connections w \<and>
         connections (snd (api_get_copurchase_recommendations w product_id limit)) = connections w"
  using assms
  by (simp add: api_get_similar_products_def api_get_copurchase_recommendations_def
      status_code_def Let_def)

theorem limit_above_50_rejected_witness:
  "(50::int) < 51 \<and>
   api_get_similar_products (mk_world empty_db empty_db no_files) 1 51 =
     (Inl (HTTPException 400 LimitCannotExceed50), mk_world empty_db empty_db no_files) \<and>
   api_get_copurchase_recommendations (mk_world empty_db empty_db no_files) 1 51 =
     (Inl (HTTPException 400 LimitCannotExceed50), mk_world empty_db empty_db no_files) \<and>
   connections (snd (api_get_similar_products (mk_world empty_db empty_db no_files) 1 51)) = []"
  using limit_above_50_rejected_without_store_access[of 51 "mk_world empty_db empty_db no_files" 1]
  by (simp add: mk_world_def)

text \<open>
  C2. An unknown product with no recommendations should be answered with 404. With no
  model files and a catalog that does not hold product 999, the service returns the empty
  list, the endpoint raises the 404 inside its own \<^verbatim>\<open>try\<close>, and the
  \<^verbatim>\<open>except Exception\<close> handler turns it into a 500 that wraps it. Both endpoints do so.
\<close>

theorem not_found_is_reported_as_500:
  "api_get_similar_products (mk_world empty_db empty_db no_files) 999 10 =
     (Inl (HTTPException 500 (ErrorGettingSimilar (HTTPException 404 (NoSimilarProductsFound 999)))),
      (mk_world empty_db empty_db no_files)\<lparr>connections := [Production]\<rparr>) \<and>
   api_get_copurchase_recommendations (mk_world empty_db empty_db no_files) 999 10 =
     (Inl (HTTPException 500 (ErrorGettingCopurchase (HTTPException 404 (NoCopurchaseFound 999)))),
      (mk_world empty_db empty_db no_files)\<lparr>connections := [Production]\<rparr>)"
  by (simp add: api_get_similar_products_def api_get_copurchase_recommendations_def
       get_ml_service_def load_models_def no_files_def exists_pkl_def mk_world_def
       get_similar_products_def get_copurchase_recommendations_def
       get_fallback_similar_products_def get_fallback_copurchase_recommendations_def
       get_connection_def log_connection_def db_of_def empty_db_def fallback_similar_body_def
       bought_with_query_def sql_limit_def)

subsection \<open>Limits below the upper bound\<close>

lemma py_slice_to_0: "py_slice_to xs 0 = []"
  by (simp add: py_slice_to_def)

lemma nat_add_neg: "l < 0 \<Longrightarrow> nat (int n + l) = n - nat (- l)"
  by arith

lemma py_slice_to_neg:
  "limit < 0 \<Longrightarrow> py_slice_to xs limit = take (length xs - nat (- limit)) xs"
  by (simp add: py_slice_to_def nat_add_neg)

lemma sql_limit_neg: "limit < 0 \<Longrightarrow> sql_limit limit rows = Inl ProgrammingError"
  by (simp add: sql_limit_def)

lemma get_ml_service_tied: "get_ml_service tied_world = tied_service"
  by (simp add: get_ml_service_def tied_world_def mk_world_def tied_files_def load_models_def
      exists_pkl_def tied_service_def)

lemmas example_defs = tied_service_def catalog_features_def catalog_def mk_product_def
  catalog_db_def

text \<open>
  C10. No limit up to 50 is refused as invalid, zero and negative ones included, by
  either endpoint. On the trained path of either operation a limit of 0 gives the empty
  list, which the endpoint treats as the no-results case (the 404 that reaches the caller
  wrapped in a 500); a negative limit goes into the slice unchecked, which drops that many
  entries from the end of the ranking. On the fallback path of either operation a negative
  limit goes into \<^verbatim>\<open>LIMIT\<close>, where the database refuses it, and the fallback answers with
  the empty list.
\<close>

theorem limit_has_no_lower_bound:
  assumes "limit \<le> 50"
  shows "status_code (fst (api_get_similar_products w product_id limit)) \<noteq> 400 \<and>
         status_code (fst (api_get_copurchase_recommendations w product_id limit)) \<noteq> 400 \<and>
         (models_trained self \<and> similarity_matrix self = Some m \<and> map_of m product_id = Some similar \<longrightarrow>
            (limit = 0 \<longrightarrow> get_similar_products self w product_id limit = ([], w)) \<and>
            (limit < 0 \<longrightarrow>
               similar_recommendations (product_features self)
                 (take (length similar - nat (- limit)) (sorted_desc similar)) = Inr recs \<longrightarrow>
               get_similar_products self w product_id limit = (recs, w))) \<and>
         (get_ml_service w = self \<and> models_trained self \<and> similarity_matrix self = Some m \<and>
            map_of m product_id = Some similar \<and> limit = 0 \<longrightarrow>
            api_get_similar_products w product_id limit =
              (Inl (HTTPException 500 (ErrorGettingSimilar
                      (HTTPException 404 (NoSimilarProductsFound product_id)))), w)) \<and>
         (limit < 0 \<and> products conn = Some ps \<and>
            find (\<lambda>p. p_id p = product_id) ps = Some original \<longrightarrow>
            fallback_similar_body conn product_id limit = Inl ProgrammingError) \<and>
         (models_trained self \<and> copurchase_matrix self = Some cm \<and>
            map_of cm product_id = Some copurchased \<longrightarrow>
            (limit = 0 \<longrightarrow> get_copurchase_recommendations self w product_id limit = ([], w)) \<and>
            (limit < 0 \<longrightarrow>
               copurchase_recommendations (product_features self) copurchased
                 (take (length copurchased - nat (- limit)) (sorted_desc copurchased)) = Inr crecs \<longrightarrow>
               get_copurchase_recommendations self w product_id limit = (crecs, w))) \<and>
         (get_ml_service w = self \<and> models_trained self \<and> copurchase_matrix self = Some cm \<and>
            map_of cm product_id = Some copurchased \<and> limit = 0 \<longrightarrow>
            api_get_copurchase_recommendations w product_id limit =
              (Inl (HTTPException 500 (ErrorGettingCopurchase
                      (HTTPException 404 (NoCopurchaseFound product_id)))), w)) \<and>
         (limit < 0 \<and> products conn = Some ps \<and> orderitem conn = Some items \<longrightarrow>
            bought_with_query conn product_id limit = Inl ProgrammingError) \<and>
         (limit < 0 \<longrightarrow>
            fst (get_fallback_similar_products w product_id limit) = [] \<and>
            fst (get_fallback_copurchase_recommendations w product_id limit) = [])"
proof -
  have a: "status_code (fst (api_get_similar_products w product_id limit)) \<noteq> 400"
    using assms
    by (auto simp: api_get_similar_products_def status_code_def Let_def split: prod.splits)
  have b: "status_code (fst (api_get_copurchase_recommendations w product_id limit)) \<noteq> 400"
    using assms
    by (auto simp: api_get_copurchase_recommendations_def status_code_def Let_def split: prod.splits)
  have c: "get_similar_products self w product_id 0 = ([], w)"
    if "models_trained self" "similarity_matrix self = Some m" "map_of m product_id = Some similar"
    using that by (simp add: get_similar_products_def py_slice_to_0)
  have d: "get_similar_products self w product_id limit = (recs, w)"
    if "models_trained self" "similarity_matrix self = Some m" "map_of m product_id = Some similar"
       "limit < 0"
       "similar_recommendations (product_features self)
          (take (length similar - nat (- limit)) (sorted_desc similar)) = Inr recs"
    using that by (simp add: get_similar_products_def py_slice_to_neg sorted_desc_def)
  have e: "api_get_similar_products w product_id 0 =
             (Inl (HTTPException 500 (ErrorGettingSimilar
                     (HTTPException 404 (NoSimilarProductsFound product_id)))), w)"
    if "get_ml_service w = self" "models_trained self" "similarity_matrix self = Some m"
       "map_of m product_id = Some similar"
    using that c by (simp add: api_get_similar_products_def)
  have f: "fallback_similar_body conn product_id limit = Inl ProgrammingError"
    if "limit < 0" "products conn = Some ps" "find (\<lambda>p. p_id p = product_id) ps = Some original"
    using that by (simp add: fallback_similar_body_def same_category_query_def sql_limit_neg)
  have c': "get_copurchase_recommendations self w product_id 0 = ([], w)"
    if "models_trained self" "copurchase_matrix self = Some cm"
       "map_of cm product_id = Some copurchased"
    using that by (simp add: get_copurchase_recommendations_def py_slice_to_0)
  have d': "get_copurchase_recommendations self w product_id limit = (crecs, w)"
    if "models_trained self" "copurchase_matrix self = Some cm"
       "map_of cm product_id = Some copurchased" "limit < 0"
       "copurchase_recommendations (product_features self) copurchased
          (take (length copurchased - nat (- limit)) (sorted_desc copurchased)) = Inr crecs"
    using that by (simp add: get_copurchase_recommendations_def py_slice_to_neg sorted_desc_def)
  have e': "api_get_copurchase_recommendations w product_id 0 =
             (Inl (HTTPException 500 (ErrorGettingCopurchase
                     (HTTPException 404 (NoCopurchaseFound product_id)))), w)"
    if "get_ml_service w = self" "models_trained self" "copurchase_matrix self = Some cm"
       "map_of cm product_id = Some copurchased"
    using that c' by (simp add: api_get_copurchase_recommendations_def)
  have f': "bought_with_query conn product_id limit = Inl ProgrammingError"
    if "limit < 0" "products conn = Some ps" "orderitem conn = Some items"
    using that by (simp add: bought_with_query_def sql_limit_neg)
  have g: "fst (get_fallback_similar_products w product_id limit) = []" if "limit < 0"
    using that
    by (auto simp: get_fallback_similar_products_def get_connection_def fallback_similar_body_def
        same_category_query_def sql_limit_neg split: option.splits sum.splits)
  have g': "fst (get_fallback_copurchase_recommendations w product_id limit) = []" if "limit < 0"
    using that
    by (auto simp: get_fallback_copurchase_recommendations_def get_connection_def
        bought_with_query_def sql_limit_neg split: option.splits sum.splits)
  have similar_part:
    "(models_trained self \<and> similarity_matrix self = Some m \<and> map_of m product_id = Some similar \<longrightarrow>
            (limit = 0 \<longrightarrow> get_similar_products self w product_id limit = ([], w)) \<and>
            (limit < 0 \<longrightarrow>
               similar_recommendations (product_features self)
                 (take (length similar - nat (- limit)) (sorted_desc similar)) = Inr recs \<longrightarrow>
               get_similar_products self w product_id limit = (recs, w))) \<and>
         (get_ml_service w = self \<and> models_trained self \<and> similarity_matrix self = Some m \<and>
            map_of m product_id = Some similar \<and> limit = 0 \<longrightarrow>
            api_get_similar_products w product_id limit =
              (Inl (HTTPException 500 (ErrorGettingSimilar
                      (HTTPException 404 (NoSimilarProductsFound product_id)))), w)) \<and>
         (limit < 0 \<and> products conn = Some ps \<and>
            find (\<lambda>p. p_id p = product_id) ps = Some original \<longrightarrow>
            fallback_similar_body conn product_id limit = Inl ProgrammingError)"
    using c d e f by (intro conjI impI) auto
  have copurchase_part:
    "(models_trained self \<and> copurchase_matrix self = Some cm \<and>
            map_of cm product_id = Some copurchased \<longrightarrow>
            (limit = 0 \<longrightarrow> get_copurchase_recommendations self w product_id limit = ([], w)) \<and>
            (limit < 0 \<longrightarrow>
               copurchase_recommendations (product_features self) copurchased
                 (take (length copurchased - nat (- limit)) (sorted_desc copurchased)) = Inr crecs \<longrightarrow>
               get_copurchase_recommendations self w product_id limit = (crecs, w))) \<and>
         (get_ml_service w = self \<and> models_trained self \<and> copurchase_matrix self = Some cm \<and>
            map_of cm product_id = Some copurchased \<and> limit = 0 \<longrightarrow>
            api_get_copurchase_recommendations w product_id limit =
              (Inl (HTTPException 500 (ErrorGettingCopurchase
                      (HTTPException 404 (NoCopurchaseFound product_id)))), w)) \<and>
         (limit < 0 \<and> products conn = Some ps \<and> orderitem conn = Some items \<longrightarrow>
            bought_with_query conn product_id limit = Inl ProgrammingError)"
    using c' d' e' f' by (intro conjI impI) auto
  have fallback_part: "limit < 0 \<longrightarrow>
            fst (get_fallback_similar_products w product_id limit) = [] \<and>
            fst (get_fallback_copurchase_recommendations w product_id limit) = []"
    using g g' by simp
  from a b similar_part copurchase_part fallback_part show ?thesis by blast
qed

theorem limit_has_no_lower_bound_witness:
  "(0::int) \<le> 50 \<and> (-1::int) \<le> 50 \<and>
   status_code (fst (api_get_similar_products tied_world 1 0)) \<noteq> 400 \<and>
   status_code (fst (api_get_copurchase_recommendations tied_world 1 (-1))) \<noteq> 400 \<and>
   get_similar_products tied_service tied_world 1 0 = ([], tied_world) \<and>
   api_get_similar_products tied_world 1 0 =
     (Inl (HTTPException 500 (ErrorGettingSimilar (HTTPException 404 (NoSimilarProductsFound 1)))),
      tied_world) \<and>
   map r_product_id (fst (get_similar_products tied_service tied_world 1 (-1))) = [4, 3] \<and>
   fallback_similar_body catalog_db 1 (-1) = Inl ProgrammingError \<and>
   get_copurchase_recommendations tied_service tied_world 1 0 = ([], tied_world) \<and>
   api_get_copurchase_recommendations tied_world 1 0 =
     (Inl (HTTPException 500 (ErrorGettingCopurchase (HTTPException 404 (NoCopurchaseFound 1)))),
      tied_world) \<and>
   map r_product_id (fst (get_copurchase_recommendations tied_service tied_world 1 (-1))) = [2] \<and>
   bought_with_query catalog_db 1 (-1) = Inl ProgrammingError \<and>
   fst (get_fallback_similar_products tied_world 1 (-1)) = [] \<and>
   fst (get_fallback_copurchase_recommendations tied_world 1 (-1)) = []"
proof -
  let ?row = "[(3, 0.5), (2, 0.5), (4, 0.9)] :: (int \<times> real) list"
  let ?m = "[(1, ?row)] :: matrix"
  let ?crow = "[(3, 2), (2, 4)] :: (int \<times> real) list"
  let ?cm = "[(1, ?crow)] :: matrix"
  let ?p1 = "mk_product 1 ''Phone A'' 100 ''X'' ''phone''"
  let ?X = "similar_recommendations (product_features tied_service)
              (take (length ?row - nat (- (-1))) (sorted_desc ?row))"
  let ?Y = "copurchase_recommendations (product_features tied_service) ?crow
              (take (length ?crow - nat (- (-1))) (sorted_desc ?crow))"
  have t: "models_trained tied_service" "similarity_matrix tied_service = Some ?m"
    "map_of ?m 1 = Some ?row" "copurchase_matrix tied_service = Some ?cm"
    "map_of ?cm 1 = Some ?crow"
    by (simp_all add: tied_service_def)
  have x: "?X = Inr (projr ?X)"
    by (simp add: sorted_desc_def example_defs ProductRecommendation_def)
  have ids: "map r_product_id (projr ?X) = [4, 3]"
    by (simp add: sorted_desc_def example_defs ProductRecommendation_def)
  have y: "?Y = Inr (projr ?Y)"
    by (simp add: sorted_desc_def example_defs ProductRecommendation_def max_freq_def)
  have cids: "map r_product_id (projr ?Y) = [2]"
    by (simp add: sorted_desc_def example_defs ProductRecommendation_def max_freq_def)
  have f: "products catalog_db = Some catalog" "orderitem catalog_db = Some []"
    "find (\<lambda>p. p_id p = 1) catalog = Some ?p1"
    by (simp_all add: catalog_db_def catalog_def mk_product_def)
  note z = limit_has_no_lower_bound[where limit = 0 and w = tied_world and product_id = 1
      and self = tied_service and m = ?m and similar = ?row and cm = ?cm and copurchased = ?crow]
  note n = limit_has_no_lower_bound[where limit = "-1" and w = tied_world and product_id = 1
      and self = tied_service and m = ?m and similar = ?row and recs = "projr ?X"
      and conn = catalog_db and ps = catalog and original = ?p1
      and cm = ?cm and copurchased = ?crow and crecs = "projr ?Y" and items = "[]"]
  have z1: "get_similar_products tied_service tied_world 1 0 = ([], tied_world)"
    "api_get_similar_products tied_world 1 0 =
     (Inl (HTTPException 500 (ErrorGettingSimilar (HTTPException 404 (NoSimilarProductsFound 1)))),
      tied_world)"
    "get_copurchase_recommendations tied_service tied_world 1 0 = ([], tied_world)"
    "api_get_copurchase_recommendations tied_world 1 0 =
     (Inl (HTTPException 500 (ErrorGettingCopurchase (HTTPException 404 (NoCopurchaseFound 1)))),
      tied_world)"
    "status_code (fst (api_get_similar_products tied_world 1 0)) \<noteq> 400"
    using z t get_ml_service_tied by (simp_all add: status_code_def)
  have n1: "get_similar_products tied_service tied_world 1 (-1) = (projr ?X, tied_world)"
    "get_copurchase_recommendations tied_service tied_world 1 (-1) = (projr ?Y, tied_world)"
    "fallback_similar_body catalog_db 1 (-1) = Inl ProgrammingError"
    "bought_with_query catalog_db 1 (-1) = Inl ProgrammingError"
    "fst (get_fallback_similar_products tied_world 1 (-1)) = []"
    "fst (get_fallback_copurchase_recommendations tied_world 1 (-1)) = []"
    "status_code (fst (api_get_copurchase_recommendations tied_world 1 (-1))) \<noteq> 400"
    using n t x y f by (simp_all add: status_code_def)
  show ?thesis
    using z1 n1 ids cids by simp
qed

subsection \<open>A failed training run\<close>

text \<open>
  C1, as stated, fails. The service \<open>tied_service\<close> trains on a mirror with two orders;
  the co-purchase matrix is built and assigned, then the similarity pipeline raises. The
  run returns the error outcome, and the co-purchase matrix that the service reads from
  is the new one, not the one it held before.
\<close>

theorem failed_training_replaces_copurchase_matrix:
  "fst (train_models failing_pca tied_service retrain_world) = Inl ValueError \<and>
   copurchase_matrix tied_service = Some [(1, [(3, 2), (2, 4)])] \<and>
   copurchase_matrix (fst (snd (train_models failing_pca tied_service retrain_world))) =
     Some [(1, [(2, 5)]), (2, [(1, 5)])] \<and>
   copurchase_matrix (fst (snd (train_models failing_pca tied_service retrain_world))) \<noteq>
     copurchase_matrix tied_service"
  apply (simp add: train_models_def get_connection_def retrain_world_def mk_world_def db_of_def
      log_connection_def)
  apply (simp add: build_copurchase_matrix_def failing_pca_def build_user_item_matrix_def
      interactions_query_def two_orders_db_def mk_order_def mk_line_def product_ids_query_def
      matrix_factorization_def n_items_def set_item2_def)
  apply (simp add: build_similarity_matrix_def catalog_def tied_service_def)
  done

text \<open>
  C1, amended. When a training run returns the error outcome, the model files, the
  trained flag and the product feature table are what they were, both databases are
  untouched, and a service constructed afterwards (as \<^verbatim>\<open>get_ml_service\<close> does for every
  request) loads the same artifact as before. The service object that ran the training
  is unchanged altogether when the failure came from the connection or from building the
  co-purchase matrix; after that point its in-memory matrices may already be the new ones.
\<close>

theorem failed_training_keeps_files_and_flag:
  assumes "train_models env self w = (Inl e, self', w')"
  shows "model_files w' = model_files w \<and>
         models_trained self' = models_trained self \<and>
         product_features self' = product_features self \<and>
         get_ml_service w' = get_ml_service w \<and>
         production w' = production w \<and> analytics w' = analytics w \<and>
         ((\<not> reachable w Analytics \<or> (\<exists>e'. build_copurchase_matrix env (analytics w) = Inl e'))
            \<longrightarrow> self' = self)"
  using assms
  by (auto simp: train_models_def get_connection_def log_connection_def db_of_def Let_def
        get_ml_service_def
      split: if_splits sum.splits prod.splits)

theorem failed_training_keeps_files_witness:
  "fst (train_models failing_pca tied_service retrain_world) = Inl ValueError \<and>
   model_files (snd (snd (train_models failing_pca tied_service retrain_world))) = tied_files \<and>
   models_trained (fst (snd (train_models failing_pca tied_service retrain_world))) \<and>
   product_features (fst (snd (train_models failing_pca tied_service retrain_world))) =
     catalog_features \<and>
   get_ml_service (snd (snd (train_models failing_pca tied_service retrain_world))) = tied_service"
proof -
  let ?r = "train_models failing_pca tied_service retrain_world"
  have f: "fst ?r = Inl ValueError"
    apply (simp add: train_models_def get_connection_def retrain_world_def mk_world_def db_of_def
        log_connection_def)
    apply (simp add: build_copurchase_matrix_def failing_pca_def build_user_item_matrix_def
        interactions_query_def two_orders_db_def mk_order_def mk_line_def product_ids_query_def
        matrix_factorization_def n_items_def set_item2_def)
    apply (simp add: build_similarity_matrix_def catalog_def tied_service_def)
    done
  then have h: "?r = (Inl ValueError, fst (snd ?r), snd (snd ?r))"
    by (metis prod.collapse)
  have g: "get_ml_service retrain_world = tied_service"
    by (simp add: get_ml_service_def retrain_world_def mk_world_def tied_files_def load_models_def
      exists_pkl_def tied_service_def)
  have m: "model_files retrain_world = tied_files" "models_trained tied_service"
     "product_features tied_service = catalog_features"
    by (simp_all add: retrain_world_def mk_world_def tied_service_def)
  show ?thesis using failed_training_keeps_files_and_flag[OF h] f g m by simp
qed

subsection \<open>A failed sync\<close>

lemma create_table_keeps:
  "rows_of (users (create_table t db)) = rows_of (users db)"
  "rows_of (products (create_table t db)) = rows_of (products db)"
  "rows_of (orders (create_table t db)) = rows_of (orders db)"
  "rows_of (orderitem (create_table t db)) = rows_of (orderitem db)"
  "users db \<noteq> None \<Longrightarrow> users (create_table t db) = users db"
  "products db \<noteq> None \<Longrightarrow> products (create_table t db) = products db"
  "orders db \<noteq> None \<Longrightarrow> orders (create_table t db) = orders db"
  "orderitem db \<noteq> None \<Longrightarrow> orderitem (create_table t db) = orderitem db"
  by (cases t; simp add: create_table_def rows_of_def)+

lemma same_content_refl: "same_content a a"
  by (simp add: same_content_def)

lemma same_content_create_table: "same_content a b \<Longrightarrow> same_content a (create_table t b)"
  unfolding same_content_def using create_table_keeps[where t=t and db=b] by auto

lemma create_tables_keeps:
  "same_content a db \<Longrightarrow> same_content a (snd (create_tables fault ts db))"
  by (induction ts arbitrary: db) (auto simp: same_content_create_table)

lemma execute_script_keeps:
  "execute_script w = (r, w1) \<Longrightarrow>
     same_content (analytics w) (analytics w1) \<and> production w1 = production w \<and>
     sync_fault w1 = sync_fault w \<and> reachable w1 = reachable w"
  using create_tables_keeps[OF same_content_refl, of "analytics w" "sync_fault w" all_tables]
  by (auto simp: execute_script_def get_connection_def log_connection_def db_of_def same_content_refl
      split: if_splits prod.splits)

text \<open>The model is not idle: a sync that succeeds replaces the content of the mirror.\<close>

lemma sync_good:
  "sync_production_data (mk_world good_source two_orders_db no_files) =
     (Inr \<lparr> users_synced = 1, products_synced = 4, orders_synced = 1, order_items_synced = 1 \<rparr>,
      (mk_world good_source two_orders_db no_files)
        \<lparr>analytics := good_source\<lparr>users := Some [synced_user (mk_user 7 ''ann'')]\<rparr>,
         connections := [Analytics, Production, Analytics]\<rparr>)"
  by (simp add: sync_production_data_def execute_script_def get_connection_def log_connection_def
      db_of_def mk_world_def all_tables_def create_table_def two_orders_db_def good_source_def
      sync_transaction_def delete_from_def select_from_def insert_into_def catalog_def
      mk_product_def mk_user_def synced_user_def mk_order_def mk_line_def)

text \<open>With the \<^verbatim>\<open>orderitem\<close> table of production missing, the last read fails.\<close>

lemma sync_broken:
  "sync_production_data (mk_world broken_source two_orders_db no_files) =
     (Inl ProgrammingError,
      (mk_world broken_source two_orders_db no_files)
        \<lparr>connections := [Analytics, Production, Analytics]\<rparr>)"
  by (simp add: sync_production_data_def execute_script_def get_connection_def log_connection_def
      db_of_def mk_world_def all_tables_def create_table_def two_orders_db_def broken_source_def
      sync_transaction_def delete_from_def select_from_def insert_into_def catalog_def
      mk_product_def mk_user_def synced_user_def mk_order_def)

lemma sync_commit_fault:
  "fst (sync_production_data
          ((mk_world good_source two_orders_db no_files)\<lparr>sync_fault := (\<lambda>s. s = Commit)\<rparr>)) =
     Inl OperationalError"
  by (simp add: sync_production_data_def execute_script_def get_connection_def log_connection_def
      db_of_def mk_world_def all_tables_def create_table_def two_orders_db_def good_source_def
      sync_transaction_def delete_from_def select_from_def insert_into_def catalog_def
      mk_product_def mk_user_def synced_user_def mk_order_def mk_line_def)

text \<open>
  C3, as stated, fails. On a mirror that does not hold its tables yet, with the production
  database refusing connections, the sync returns the error outcome after its
  \<^verbatim>\<open>CREATE TABLE IF NOT EXISTS\<close> script has run and committed on a connection of its own:
  the mirror holds four empty tables where it held none, so it is not exactly as it was.
\<close>

theorem failed_sync_creates_missing_tables:
  "fst (sync_production_data fresh_mirror) = Inl OperationalError \<and>
   analytics fresh_mirror = no_tables \<and>
   analytics (snd (sync_production_data fresh_mirror)) = empty_db \<and>
   analytics (snd (sync_production_data fresh_mirror)) \<noteq> analytics fresh_mirror"
  by (simp add: sync_production_data_def execute_script_def get_connection_def log_connection_def
      db_of_def fresh_mirror_def mk_world_def all_tables_def create_table_def no_tables_def
      empty_db_def)

text \<open>
  C3, amended. Whenever \<^verbatim>\<open>sync_production_data\<close> returns the error outcome, for whatever
  reason (a store that refuses the connection, a statement that fails before, during or
  after the rewrite, a failing commit), each of the four tables of the mirror holds exactly
  the rows it held before, every table that existed is unchanged, and production is
  untouched: the deletes and inserts of the failed attempt were never committed. The only
  change that a failed sync can leave is that a table which did not exist has been created
  by \<^verbatim>\<open>CREATE TABLE IF NOT EXISTS\<close>; it is empty.
\<close>

theorem failed_sync_leaves_mirror_as_it_was:
  assumes "sync_production_data w = (Inl e, w')"
  shows "rows_of (users (analytics w')) = rows_of (users (analytics w)) \<and>
         rows_of (products (analytics w')) = rows_of (products (analytics w)) \<and>
         rows_of (orders (analytics w')) = rows_of (orders (analytics w)) \<and>
         rows_of (orderitem (analytics w')) = rows_of (orderitem (analytics w)) \<and>
         (users (analytics w) \<noteq> None \<longrightarrow> users (analytics w') = users (analytics w)) \<and>
         (products (analytics w) \<noteq> None \<longrightarrow> products (analytics w') = products (analytics w)) \<and>
         (orders (analytics w) \<noteq> None \<longrightarrow> orders (analytics w') = orders (analytics w)) \<and>
         (orderitem (analytics w) \<noteq> None \<longrightarrow> orderitem (analytics w') = orderitem (analytics w)) \<and>
         production w' = production w"
proof -
  obtain r w1 where x: "execute_script w = (r, w1)" by (cases "execute_script w")
  have k: "same_content (analytics w) (analytics w1)" "production w1 = production w"
    using execute_script_keeps[OF x] by simp_all
  have "analytics w' = analytics w1 \<and> production w' = production w1"
    using assms x
    by (auto simp: sync_production_data_def get_connection_def log_connection_def
        split: option.splits if_splits sum.splits prod.splits)
  then show ?thesis using k by (simp add: same_content_def)
qed

theorem failed_sync_leaves_mirror_witness:
  "fst (sync_production_data (mk_world broken_source two_orders_db no_files)) =
     Inl ProgrammingError \<and>
   analytics (snd (sync_production_data (mk_world broken_source two_orders_db no_files))) =
     two_orders_db \<and>
   orderitem two_orders_db = Some [mk_line 1 1 1, mk_line 2 1 2, mk_line 3 2 1, mk_line 4 2 2]"
proof -
  let ?w = "mk_world broken_source two_orders_db no_files"
  have a: "analytics ?w = two_orders_db" by (simp add: mk_world_def)
  have n: "users two_orders_db \<noteq> None" "products two_orders_db \<noteq> None"
          "orders two_orders_db \<noteq> None" "orderitem two_orders_db \<noteq> None"
    by (simp_all add: two_orders_db_def)
  from failed_sync_leaves_mirror_as_it_was[OF sync_broken] a n
  have "users (analytics (snd (sync_production_data ?w))) = users two_orders_db"
       "products (analytics (snd (sync_production_data ?w))) = products two_orders_db"
       "orders (analytics (snd (sync_production_data ?w))) = orders two_orders_db"
       "orderitem (analytics (snd (sync_production_data ?w))) = orderitem two_orders_db"
    by (simp_all add: sync_broken)
  then have e: "analytics (snd (sync_production_data ?w)) = two_orders_db"
    by (simp add: database.equality)
  have l: "orderitem two_orders_db =
             Some [mk_line 1 1 1, mk_line 2 1 2, mk_line 3 2 1, mk_line 4 2 2]"
    by (simp add: two_orders_db_def)
  have f: "fst (sync_production_data ?w) = Inl ProgrammingError"
    by (simp add: sync_broken)
  show ?thesis using e l f by blast
qed

subsection \<open>The fallback co-purchase graph\<close>

lemma map_of_set_item2:
  "map_of (set_item2 m a b v) x =
     (if x = a then Some (AList.update b v (case map_of m a of None \<Rightarrow> [] | Some r \<Rightarrow> r))
      else map_of m x)"
  by (simp add: set_item2_def update_conv')

lemma lookup2_set_item2:
  "lookup2 (set_item2 m a b v) x y = (if x = a \<and> y = b then Some v else lookup2 m x y)"
proof (cases "x = a")
  case True
  show ?thesis
  proof (cases "map_of m a")
    case None
    then show ?thesis using True by (simp add: lookup2_def map_of_set_item2 update_conv')
  next
    case (Some r)
    then show ?thesis using True by (simp add: lookup2_def map_of_set_item2 update_conv')
  qed
next
  case False
  then show ?thesis by (simp add: lookup2_def map_of_set_item2)
qed

lemma lookup2_copurchase_row:
  "lookup2 (copurchase_row ((p, q), f) m) x y =
     (if (x = p \<and> y = q) \<or> (x = q \<and> y = p) then Some (real f) else lookup2 m x y)"
  apply (simp only: copurchase_row_def prod.case)
  apply (simp only: lookup2_set_item2)
  apply (cases "x = p"; cases "y = q"; cases "x = q"; cases "y = p"; simp)
  done

lemma lookup2_Nil: "lookup2 [] x y = None"
  by (simp add: lookup2_def)

lemma fold_copurchase_row:
  assumes "distinct (map fst rows)" "\<forall>r\<in>set rows. fst (fst r) < snd (fst r)"
  shows "lookup2 (fold copurchase_row rows m) x y =
           (case map_of rows (min x y, max x y) of
              Some f \<Rightarrow> Some (real f)
            | None \<Rightarrow> lookup2 m x y)"
  using assms
proof (induction rows arbitrary: m)
  case Nil
  then show ?case by simp
next
  case (Cons r rows)
  obtain p q f where r: "r = ((p, q), f)" by (cases r) auto
  have pq: "p < q" using Cons.prems r by simp
  have nk: "map_of rows (p, q) = None"
    using Cons.prems r by (simp add: map_of_eq_None_iff)
  have ih: "lookup2 (fold copurchase_row rows (copurchase_row ((p, q), f) m)) x y =
           (case map_of rows (min x y, max x y) of
              Some f \<Rightarrow> Some (real f)
            | None \<Rightarrow> lookup2 (copurchase_row ((p, q), f) m) x y)"
    using Cons.IH[of "copurchase_row ((p, q), f) m"] Cons.prems by simp
  show ?case
  proof (cases "(min x y, max x y) = (p, q)")
    case True
    then have "(x = p \<and> y = q) \<or> (x = q \<and> y = p)"
      by (auto simp: min_def max_def split: if_splits)
    then have "lookup2 (copurchase_row ((p, q), f) m) x y = Some (real f)"
      by (simp only: lookup2_copurchase_row if_True)
    then show ?thesis using True nk ih r by simp
  next
    case False
    then have "\<not> ((x = p \<and> y = q) \<or> (x = q \<and> y = p))"
      using pq by (auto simp: min_def max_def)
    then have "lookup2 (copurchase_row ((p, q), f) m) x y = lookup2 m x y"
      by (simp only: lookup2_copurchase_row if_False)
    moreover have "map_of (r # rows) (min x y, max x y) = map_of rows (min x y, max x y)"
      using False r by auto
    ultimately show ?thesis using ih r by (simp split: option.splits)
  qed
qed

lemma grouped_query:
  fixes c :: "'g \<Rightarrow> nat" and k :: "'g \<times> nat \<Rightarrow> int"
  defines "L \<equiv> \<lambda>xs P. sort_key k (filter (\<lambda>(g, f). P f) (map (\<lambda>g. (g, c g)) (remdups xs)))"
  shows "distinct (map fst (L xs P))"
    and "map_of (L xs P) g = (if g \<in> set xs \<and> P (c g) then Some (c g) else None)"
proof -
  have s: "set (L xs P) = {(g, c g) | g. g \<in> set xs \<and> P (c g)}"
    by (auto simp: L_def)
  have "distinct (map (\<lambda>g. (g, c g)) (remdups xs))"
    by (simp add: distinct_map inj_on_def)
  then have d: "distinct (L xs P)" by (simp add: L_def)
  have "inj_on fst (set (L xs P))" unfolding s by (auto simp: inj_on_def)
  with d show dm: "distinct (map fst (L xs P))" by (simp add: distinct_map)
  show "map_of (L xs P) g = (if g \<in> set xs \<and> P (c g) then Some (c g) else None)"
  proof (cases "g \<in> set xs \<and> P (c g)")
    case True
    then have "(g, c g) \<in> set (L xs P)" unfolding s by blast
    then show ?thesis using dm True by simp
  next
    case False
    then have "g \<notin> fst ` set (L xs P)" unfolding s by auto
    then have "map_of (L xs P) g = None" by (simp add: map_of_eq_None_iff)
    then show ?thesis by (simp only: False if_False)
  qed
qed

lemma count_list_map:
  "count_list (map f xs) v = length (filter (\<lambda>x. f x = v) xs)"
  by (induction xs) auto

lemma count_pairs:
  "count_list (map (\<lambda>(o1, o2). (oi_product_id o1, oi_product_id o2)) (copurchase_join items)) (a, b) =
     (if a < b then purchase_count items a b else 0)"
proof -
  have "count_list (map (\<lambda>(o1, o2). (oi_product_id o1, oi_product_id o2)) (copurchase_join items)) (a, b) =
        length (filter (\<lambda>(o1, o2). (oi_order_id o1 = oi_order_id o2 \<and> oi_product_id o1 < oi_product_id o2)
                                     \<and> oi_product_id o1 = a \<and> oi_product_id o2 = b)
                  (List.product items items))"
    by (simp add: count_list_map copurchase_join_def case_prod_unfold conj_commute)
  also have "\<dots> = (if a < b then purchase_count items a b else 0)"
  proof (cases "a < b")
    case True
    have "filter (\<lambda>(o1, o2). (oi_order_id o1 = oi_order_id o2 \<and> oi_product_id o1 < oi_product_id o2)
                                     \<and> oi_product_id o1 = a \<and> oi_product_id o2 = b)
                  (List.product items items) =
          filter (\<lambda>(oi1, oi2). oi_product_id oi1 = a \<and> oi_order_id oi1 = oi_order_id oi2
                                   \<and> oi_product_id oi2 = b)
                    (List.product items items)"
      using True by (intro filter_cong) auto
    then show ?thesis using True by (simp add: purchase_count_def)
  next
    case False
    have "filter (\<lambda>(o1, o2). (oi_order_id o1 = oi_order_id o2 \<and> oi_product_id o1 < oi_product_id o2)
                                     \<and> oi_product_id o1 = a \<and> oi_product_id o2 = b)
                  (List.product items items) = []"
      using False by (auto simp: filter_empty_conv)
    then show ?thesis using False by simp
  qed
  finally show ?thesis .
qed

lemma count_pairs_in_set:
  "0 < count_list xs g \<longleftrightarrow> g \<in> set xs"
  using count_list_0_iff[of xs g] by auto

lemma copurchase_query_rows:
  assumes "orderitem conn = Some items"
  obtains rows where "copurchase_query conn = Inr rows"
    "distinct (map fst rows)"
    "\<forall>r\<in>set rows. fst (fst r) < snd (fst r)"
    "\<And>a b. map_of rows (a, b) =
        (if a < b \<and> 2 \<le> purchase_count items a b then Some (purchase_count items a b) else None)"
proof -
  let ?pairs = "map (\<lambda>(o1, o2). (oi_product_id o1, oi_product_id o2)) (copurchase_join items)"
  let ?rows = "sort_key (\<lambda>(g, frequency). - int frequency)
                 (filter (\<lambda>(g, frequency). 2 \<le> frequency)
                    (map (\<lambda>g. (g, count_list ?pairs g)) (remdups ?pairs)))"
  have q: "copurchase_query conn = Inr ?rows"
    using assms by (simp add: copurchase_query_def Let_def)
  have d: "distinct (map fst ?rows)"
    by (rule grouped_query(1))
  have m: "map_of ?rows g = (if g \<in> set ?pairs \<and> 2 \<le> count_list ?pairs g
                              then Some (count_list ?pairs g) else None)" for g
    by (rule grouped_query(2))
  have m': "map_of ?rows (a, b) =
        (if a < b \<and> 2 \<le> purchase_count items a b then Some (purchase_count items a b) else None)" for a b
  proof -
    have "(a, b) \<in> set ?pairs \<and> 2 \<le> count_list ?pairs (a, b) \<longleftrightarrow> 2 \<le> count_list ?pairs (a, b)"
      using count_pairs_in_set[of ?pairs "(a, b)"] by auto
    then show ?thesis unfolding m count_pairs by auto
  qed
  have lt: "\<forall>r\<in>set ?rows. fst (fst r) < snd (fst r)"
    by (auto simp: copurchase_join_def)
  show ?thesis using that[OF q d lt] m' by blast
qed

lemma length_filter_product:
  "length (filter P (List.product xs ys)) =
     sum_list (map (\<lambda>x. length (filter (\<lambda>y. P (x, y)) ys)) xs)"
  by (induction xs) (simp_all add: filter_map comp_def)

lemma length_filter_indicator:
  "length (filter P xs) = sum_list (map (\<lambda>x. if P x then 1 else 0) xs)"
  by (induction xs) simp_all

lemma sum_list_swap_count:
  "sum_list (map (\<lambda>x. length (filter (\<lambda>y. Q x y) ys)) xs) =
   sum_list (map (\<lambda>y. length (filter (\<lambda>x. Q x y) xs)) ys)"
proof (induction xs)
  case Nil
  then show ?case by simp
next
  case (Cons x xs)
  have "sum_list (map (\<lambda>y. length (filter (\<lambda>x. Q x y) (x # xs))) ys) =
        sum_list (map (\<lambda>y. (if Q x y then 1 else 0) + length (filter (\<lambda>x. Q x y) xs)) ys)"
    by (intro arg_cong[where f=sum_list] map_cong) auto
  also have "\<dots> = length (filter (Q x) ys) + sum_list (map (\<lambda>y. length (filter (\<lambda>x. Q x y) xs)) ys)"
    by (simp add: sum_list_addf length_filter_indicator[symmetric])
  finally show ?case using Cons.IH by simp
qed

lemma purchase_count_sym: "purchase_count items a b = purchase_count items b a"
proof -
  have "purchase_count items a b =
        sum_list (map (\<lambda>x. length (filter (\<lambda>y. oi_product_id x = a \<and> oi_order_id x = oi_order_id y
                                                \<and> oi_product_id y = b) items)) items)"
    by (simp add: purchase_count_def length_filter_product)
  also have "\<dots> =
        sum_list (map (\<lambda>y. length (filter (\<lambda>x. oi_product_id x = a \<and> oi_order_id x = oi_order_id y
                                                \<and> oi_product_id y = b) items)) items)"
    by (rule sum_list_swap_count)
  also have "\<dots> =
        sum_list (map (\<lambda>y. length (filter (\<lambda>x. oi_product_id y = b \<and> oi_order_id y = oi_order_id x
                                                \<and> oi_product_id x = a) items)) items)"
    by (intro arg_cong[where f=sum_list] map_cong arg_cong[where f=length] filter_cong) auto
  also have "\<dots> = purchase_count items b a"
    by (simp add: purchase_count_def length_filter_product)
  finally show ?thesis .
qed

lemma distinct_key_count:
  "distinct (map f xs) \<Longrightarrow> length (filter (\<lambda>y. f y = v) xs) = (if v \<in> f ` set xs then 1 else 0)"
  by (induction xs) auto

lemma purchase_count_orders:
  assumes "distinct (map (\<lambda>x. (oi_order_id x, oi_product_id x)) items)"
  shows "purchase_count items a b = orders_together items a b"
proof -
  let ?k = "\<lambda>x. (oi_order_id x, oi_product_id x)"
  let ?P = "\<lambda>x. oi_product_id x = a \<and>
                list_ex (\<lambda>y. oi_order_id y = oi_order_id x \<and> oi_product_id y = b) items"
  have inner: "length (filter (\<lambda>y. oi_product_id x = a \<and> oi_order_id x = oi_order_id y
                                                \<and> oi_product_id y = b) items) =
               (if ?P x then 1 else 0)" for x
  proof (cases "oi_product_id x = a")
    case True
    have "filter (\<lambda>y. oi_product_id x = a \<and> oi_order_id x = oi_order_id y \<and> oi_product_id y = b) items =
          filter (\<lambda>y. ?k y = (oi_order_id x, b)) items"
      using True by (intro filter_cong) auto
    then have "length (filter (\<lambda>y. oi_product_id x = a \<and> oi_order_id x = oi_order_id y \<and> oi_product_id y = b) items) =
          (if (oi_order_id x, b) \<in> ?k ` set items then 1 else 0)"
      using distinct_key_count[OF assms, of "(oi_order_id x, b)"] by simp
    moreover have "(oi_order_id x, b) \<in> ?k ` set items \<longleftrightarrow>
         list_ex (\<lambda>y. oi_order_id y = oi_order_id x \<and> oi_product_id y = b) items"
      by (force simp: list_ex_iff image_iff)
    ultimately show ?thesis using True by simp
  next
    case False
    then show ?thesis by simp
  qed
  have "purchase_count items a b = length (filter ?P items)"
    unfolding purchase_count_def length_filter_product case_prod_conv inner
    by (simp add: length_filter_indicator[symmetric])
  moreover have "distinct (map oi_order_id (filter ?P items))"
  proof -
    have d: "distinct items" "inj_on ?k (set items)"
      using assms by (simp_all add: distinct_map)
    have "inj_on oi_order_id (set (filter ?P items))"
    proof (rule inj_onI)
      fix x y assume "x \<in> set (filter ?P items)" "y \<in> set (filter ?P items)"
        "oi_order_id x = oi_order_id y"
      then have "?k x = ?k y" "x \<in> set items" "y \<in> set items" by auto
      then show "x = y" using d(2) by (auto dest: inj_onD)
    qed
    then show ?thesis using d(1) by (simp add: distinct_map)
  qed
  ultimately show ?thesis
    by (simp add: orders_together_def remdups_id_iff_distinct[THEN iffD2])
qed

text \<open>
  C9, amended. On every mirror whose \<^verbatim>\<open>orderitem\<close> table exists the fallback builder
  returns a graph, and the graph is symmetric: the entry for \<open>(a, b)\<close> is the entry for
  \<open>(b, a)\<close>. The weight is the number of pairs of order lines, one of \<open>a\<close> and one of
  \<open>b\<close>, in the same order, and an edge is kept exactly when \<open>a \<noteq> b\<close> and that number is at
  least 2. When no order lists a product on two lines, the number is the number of orders
  that hold both products.
\<close>

theorem fallback_copurchase_symmetric_pair_count:
  assumes "orderitem conn = Some items"
  shows "\<exists>G. build_simple_copurchase_matrix conn = Inr G \<and>
           lookup2 G a b = lookup2 G b a \<and>
           lookup2 G a b =
             (if a \<noteq> b \<and> 2 \<le> purchase_count items a b
              then Some (real (purchase_count items a b)) else None) \<and>
           (distinct (map (\<lambda>x. (oi_order_id x, oi_product_id x)) items) \<longrightarrow>
              lookup2 G a b =
                (if a \<noteq> b \<and> 2 \<le> orders_together items a b
                 then Some (real (orders_together items a b)) else None))"
proof -
  obtain rows where r: "copurchase_query conn = Inr rows"
    "distinct (map fst rows)"
    "\<forall>r\<in>set rows. fst (fst r) < snd (fst r)"
    and m: "\<And>a b. map_of rows (a, b) =
        (if a < b \<and> 2 \<le> purchase_count items a b then Some (purchase_count items a b) else None)"
    using copurchase_query_rows[OF assms] by blast
  let ?G = "fold copurchase_row rows []"
  have g: "build_simple_copurchase_matrix conn = Inr ?G"
    using r(1) by (simp add: build_simple_copurchase_matrix_def)
  have l: "lookup2 ?G x y =
             (if x \<noteq> y \<and> 2 \<le> purchase_count items x y
              then Some (real (purchase_count items x y)) else None)" for x y
  proof -
    have "purchase_count items (min x y) (max x y) = purchase_count items x y"
      using purchase_count_sym[of items x y] by (auto simp: min_def max_def)
    moreover have "min x y < max x y \<longleftrightarrow> x \<noteq> y" by (auto simp: min_def max_def)
    ultimately show ?thesis
      unfolding fold_copurchase_row[OF r(2,3)] m by (simp add: lookup2_Nil)
  qed
  have s: "lookup2 ?G a b = lookup2 ?G b a"
    unfolding l using purchase_count_sym[of items a b] by auto
  show ?thesis
    using g l[of a b] s purchase_count_orders[of items a b] by auto
qed

text \<open>
  C9, as stated, fails on the weight. One order with product 1 on two lines and product 2
  on one line: the join pairs each line of product 1 with the line of product 2, the count
  is 2, and the edge is kept with weight 2, though only one order holds both products.
\<close>

theorem fallback_copurchase_counts_lines_not_orders:
  "build_simple_copurchase_matrix doubled_line_db = Inr [(1, [(2, 2)]), (2, [(1, 2)])] \<and>
   lookup2 [(1, [(2, 2)]), (2, [(1, 2)])] 1 2 = Some 2 \<and>
   orders_together [mk_line 1 1 1, mk_line 2 1 1, mk_line 3 1 2] 1 2 = 1"
  by (simp add: build_simple_copurchase_matrix_def copurchase_query_def doubled_line_db_def
      copurchase_join_def mk_line_def copurchase_row_def set_item2_def lookup2_def
      orders_together_def)

theorem fallback_copurchase_symmetric_witness:
  "orderitem two_orders_db = Some [mk_line 1 1 1, mk_line 2 1 2, mk_line 3 2 1, mk_line 4 2 2] \<and>
   distinct (map (\<lambda>x. (oi_order_id x, oi_product_id x))
               [mk_line 1 1 1, mk_line 2 1 2, mk_line 3 2 1, mk_line 4 2 2]) \<and>
   orders_together [mk_line 1 1 1, mk_line 2 1 2, mk_line 3 2 1, mk_line 4 2 2] 1 2 = 2 \<and>
   (\<exists>G. build_simple_copurchase_matrix two_orders_db = Inr G \<and>
        lookup2 G 1 2 = Some 2 \<and> lookup2 G 2 1 = Some 2)"
proof -
  let ?items = "[mk_line 1 1 1, mk_line 2 1 2, mk_line 3 2 1, mk_line 4 2 2]"
  have i: "orderitem two_orders_db = Some ?items" by (simp add: two_orders_db_def)
  have d: "distinct (map (\<lambda>x. (oi_order_id x, oi_product_id x)) ?items)"
    by (simp add: mk_line_def)
  have o: "orders_together ?items 1 2 = 2"
    by (simp add: orders_together_def mk_line_def)
  have p: "purchase_count ?items 1 2 = 2"
    by (simp add: purchase_count_def mk_line_def)
  from fallback_copurchase_symmetric_pair_count[OF i, of 1 2] d o p
  show ?thesis using i by auto
qed

subsection \<open>The fallback similarity score and graph\<close>

lemma calculate_cases:
  "calculate_product_similarity p q =
     (if reaches_price_term p q then Inl TypeError else Inr (category_brand_score p q))"
  by (cases "p_price p"; cases "p_price q")
     (simp_all add: calculate_product_similarity_def reaches_price_term_def
        category_brand_score_def py_bool_num_def Let_def)

lemma reaches_price_term_sym: "reaches_price_term p q = reaches_price_term q p"
  by (cases "p_price p"; cases "p_price q")
     (auto simp: reaches_price_term_def max.commute)

lemma category_brand_score_sym: "category_brand_score p q = category_brand_score q p"
proof -
  have c: "(p_category p = p_category q) = (p_category q = p_category p)"
          "(p_brand p = p_brand q) = (p_brand q = p_brand p)" by auto
  show ?thesis unfolding category_brand_score_def c ..
qed

lemma score_without_price:
  assumes "p_price p = None \<or> p_price q = None"
  shows "\<not> reaches_price_term p q" "category_brand_score p q = spec_fallback_score p q"
  using assms
  by (cases "p_price p"; cases "p_price q";
      simp add: reaches_price_term_def category_brand_score_def spec_fallback_score_def)+

lemma score_with_prices:
  assumes "p_price p = Some x" "p_price q = Some y" "0 < x" "0 < y"
  shows "reaches_price_term p q"
    "spec_fallback_score p q = min (category_brand_score p q + 0.2 * (1 - \<bar>x - y\<bar> / max x y)) 1"
  using assms
  by (simp_all add: reaches_price_term_def category_brand_score_def spec_fallback_score_def max_def)

lemma similarity_pair_Inr:
  "similarity_pair p q m = Inr m' \<longleftrightarrow>
     \<not> reaches_price_term p q \<and>
     m' = (if 0.3 < category_brand_score p q
           then set_item2 (set_item2 m (p_id p) (p_id q) (category_brand_score p q))
                          (p_id q) (p_id p) (category_brand_score p q)
           else m)"
  by (auto simp: similarity_pair_def calculate_cases)

lemma lookup2_similarity_pair:
  assumes "similarity_pair p q m = Inr m'"
  shows "lookup2 m' x y =
     (if 0.3 < category_brand_score p q \<and>
         ((x = p_id p \<and> y = p_id q) \<or> (x = p_id q \<and> y = p_id p))
      then Some (category_brand_score p q) else lookup2 m x y)"
proof (cases "0.3 < category_brand_score p q")
  case True
  then have "m' =
      set_item2 (set_item2 m (p_id p) (p_id q) (category_brand_score p q))
        (p_id q) (p_id p) (category_brand_score p q)"
    using assms by (simp add: similarity_pair_Inr)
  then show ?thesis
    apply (simp only: lookup2_set_item2 True)
    apply (cases "x = p_id p"; cases "y = p_id q"; cases "x = p_id q"; cases "y = p_id p"; simp)
    done
next
  case False
  then show ?thesis using assms by (simp add: similarity_pair_Inr)
qed

lemma find_id_None: "i \<notin> p_id ` set ps \<Longrightarrow> find (\<lambda>r. p_id r = i) ps = None"
  by (auto simp: find_None_iff)

lemma find_id_Some:
  "distinct (map p_id ps) \<Longrightarrow> p \<in> set ps \<Longrightarrow> find (\<lambda>r. p_id r = p_id p) ps = Some p"
  by (induction ps) auto

text \<open>The inner loop: it raises as soon as a pair reaches the price term.\<close>

lemma similarity_pair_eq:
  "similarity_pair p q m =
     (if reaches_price_term p q then Inl TypeError
      else Inr (if 0.3 < category_brand_score p q
                then set_item2 (set_item2 m (p_id p) (p_id q) (category_brand_score p q))
                               (p_id q) (p_id p) (category_brand_score p q)
                else m))"
  by (simp add: similarity_pair_def calculate_cases)

lemma similarity_row_raises:
  "\<exists>q\<in>set rest. reaches_price_term p q \<Longrightarrow> similarity_row p rest m = Inl TypeError"
proof (induction rest arbitrary: m)
  case Nil
  then show ?case by simp
next
  case (Cons q rest)
  show ?case
  proof (cases "reaches_price_term p q")
    case True
    then show ?thesis by (simp add: similarity_pair_eq)
  next
    case False
    then have "\<exists>q\<in>set rest. reaches_price_term p q" using Cons.prems by simp
    then show ?thesis using False Cons.IH by (simp add: similarity_pair_eq)
  qed
qed

lemma similarity_row_returns:
  "\<forall>q\<in>set rest. \<not> reaches_price_term p q \<Longrightarrow> \<exists>m'. similarity_row p rest m = Inr m'"
proof (induction rest arbitrary: m)
  case Nil
  then show ?case by simp
next
  case (Cons q rest)
  then show ?case by (simp add: similarity_pair_eq)
qed

text \<open>What one product writes against the products after it.\<close>

lemma similarity_row_lookup:
  assumes "distinct (map p_id rest)" "similarity_row p rest m = Inr m'"
  shows "lookup2 m' x y =
           (case (if x = p_id p then find (\<lambda>q. p_id q = y) rest
                  else if y = p_id p then find (\<lambda>q. p_id q = x) rest else None) of
              Some q \<Rightarrow> if 0.3 < category_brand_score p q
                        then Some (category_brand_score p q) else lookup2 m x y
            | None \<Rightarrow> lookup2 m x y)"
  using assms
proof (induction rest arbitrary: m)
  case Nil
  then show ?case by simp
next
  case (Cons q0 rest)
  obtain m1 where m1: "similarity_pair p q0 m = Inr m1" "similarity_row p rest m1 = Inr m'"
    using Cons.prems(2) by (auto split: sum.splits)
  let ?sel = "\<lambda>l. (if x = p_id p then find (\<lambda>q. p_id q = y) l
                  else if y = p_id p then find (\<lambda>q. p_id q = x) l else None)"
  have d: "p_id q0 \<notin> p_id ` set rest" "distinct (map p_id rest)"
    using Cons.prems(1) by auto
  have ih: "lookup2 m' x y =
           (case ?sel rest of
              Some q \<Rightarrow> if 0.3 < category_brand_score p q
                        then Some (category_brand_score p q) else lookup2 m1 x y
            | None \<Rightarrow> lookup2 m1 x y)"
    using Cons.IH[OF d(2) m1(2)] .
  show ?case
  proof (cases "(x = p_id p \<and> y = p_id q0) \<or> (x = p_id q0 \<and> y = p_id p)")
    case True
    then have s0: "?sel (q0 # rest) = Some q0" by auto
    have s1: "?sel rest = None"
      using True find_id_None[OF d(1)] by auto
    have l: "lookup2 m1 x y = (if 0.3 < category_brand_score p q0
                        then Some (category_brand_score p q0) else lookup2 m x y)"
      using True by (simp only: lookup2_similarity_pair[OF m1(1)]) simp
    show ?thesis
      unfolding ih s0 s1 l by simp
  next
    case False
    then have s0: "?sel (q0 # rest) = ?sel rest" by auto
    have l: "lookup2 m1 x y = lookup2 m x y"
      using False by (simp only: lookup2_similarity_pair[OF m1(1)]) simp
    show ?thesis
      unfolding ih s0 l by simp
  qed
qed

text \<open>The whole double loop.\<close>

lemma simple_similarity_loop_raises:
  "\<not> sorted_wrt (\<lambda>p q. \<not> reaches_price_term p q) ps \<Longrightarrow>
     simple_similarity_loop ps m = Inl TypeError"
proof (induction ps arbitrary: m)
  case Nil
  then show ?case by simp
next
  case (Cons p rest)
  show ?case
  proof (cases "\<exists>q\<in>set rest. reaches_price_term p q")
    case True
    then show ?thesis by (simp add: similarity_row_raises)
  next
    case False
    then obtain m1 where m1: "similarity_row p rest m = Inr m1"
      using similarity_row_returns[of rest p m] by auto
    have "\<not> sorted_wrt (\<lambda>p q. \<not> reaches_price_term p q) rest"
      using False Cons.prems by simp
    then show ?thesis using m1 Cons.IH by simp
  qed
qed

lemma simple_similarity_loop_returns:
  "sorted_wrt (\<lambda>p q. \<not> reaches_price_term p q) ps \<Longrightarrow>
     \<exists>G. simple_similarity_loop ps m = Inr G"
proof (induction ps arbitrary: m)
  case Nil
  then show ?case by simp
next
  case (Cons p rest)
  then obtain m1 where m1: "similarity_row p rest m = Inr m1"
    using similarity_row_returns[of rest p m] by auto
  then show ?case using Cons by simp
qed

lemma simple_similarity_loop_lookup:
  assumes "distinct (map p_id ps)" "simple_similarity_loop ps m = Inr G"
  shows "lookup2 G x y =
           (case (find (\<lambda>r. p_id r = x) ps, find (\<lambda>r. p_id r = y) ps) of
              (Some p, Some q) \<Rightarrow>
                 if x \<noteq> y \<and> 0.3 < category_brand_score p q
                 then Some (category_brand_score p q) else lookup2 m x y
            | _ \<Rightarrow> lookup2 m x y)"
  using assms
proof (induction ps arbitrary: m)
  case Nil
  then show ?case by simp
next
  case (Cons p1 rest)
  obtain m1 where m1: "similarity_row p1 rest m = Inr m1" "simple_similarity_loop rest m1 = Inr G"
    using Cons.prems(2) by (auto split: sum.splits)
  have d: "p_id p1 \<notin> p_id ` set rest" "distinct (map p_id rest)"
    using Cons.prems(1) by auto
  have n: "find (\<lambda>r. p_id r = p_id p1) rest = None"
    using find_id_None[OF d(1)] .
  have ih: "lookup2 G x y =
           (case (find (\<lambda>r. p_id r = x) rest, find (\<lambda>r. p_id r = y) rest) of
              (Some p, Some q) \<Rightarrow>
                 if x \<noteq> y \<and> 0.3 < category_brand_score p q
                 then Some (category_brand_score p q) else lookup2 m1 x y
            | _ \<Rightarrow> lookup2 m1 x y)"
    using Cons.IH[OF d(2) m1(2)] .
  note inner = similarity_row_lookup[OF d(2) m1(1), of x y]
  consider (a) "x = p_id p1" | (b) "x \<noteq> p_id p1" "y = p_id p1" | (c) "x \<noteq> p_id p1" "y \<noteq> p_id p1"
    by blast
  then show ?case
  proof cases
    case a
    show ?thesis
      using a n inner ih by (auto split: option.splits)
  next
    case b
    show ?thesis
      using b n inner ih category_brand_score_sym[of p1] by (auto split: option.splits)
  next
    case c
    show ?thesis
      using c inner ih by (auto split: option.splits)
  qed
qed

lemma priced_pair_breaks_order:
  assumes "distinct (map p_id ps)" "p \<in> set ps" "q \<in> set ps" "p_id p \<noteq> p_id q"
    "reaches_price_term p q"
  shows "\<not> sorted_wrt (\<lambda>p q. \<not> reaches_price_term p q) ps"
proof
  assume s: "sorted_wrt (\<lambda>p q. \<not> reaches_price_term p q) ps"
  obtain i j where ij: "i < length ps" "j < length ps" "ps ! i = p" "ps ! j = q"
    using assms(2,3) by (auto simp: in_set_conv_nth)
  have "i \<noteq> j" using ij assms(4) by auto
  then consider "i < j" | "j < i" by linarith
  then show False
  proof cases
    case 1
    then show ?thesis using sorted_wrt_nth_less[OF s 1 ij(2)] ij assms(5) by simp
  next
    case 2
    then show ?thesis
      using sorted_wrt_nth_less[OF s 2 ij(1)] ij assms(5) reaches_price_term_sym[of p q] by simp
  qed
qed

lemma unpriced_pairs_keep_order:
  assumes "distinct (map p_id ps)"
    "\<forall>p\<in>set ps. \<forall>q\<in>set ps. p_id p \<noteq> p_id q \<longrightarrow> \<not> reaches_price_term p q"
  shows "sorted_wrt (\<lambda>p q. \<not> reaches_price_term p q) ps"
  using assms
proof (induction ps)
  case Nil
  then show ?case by simp
next
  case (Cons p ps)
  have "\<forall>q\<in>set ps. p_id p \<noteq> p_id q" using Cons.prems(1) by auto
  then show ?case using Cons by auto
qed

text \<open>
  C8. The claim describes the score that \<^verbatim>\<open>_calculate_product_similarity\<close> is written to
  compute; the code does not compute it. For a pair whose prices are both known, neither
  zero and the larger positive (in particular for every pair of known positive prices,
  where the claim adds the price term), the scorer raises \<^verbatim>\<open>TypeError\<close>, and so does
  \<^verbatim>\<open>_build_simple_similarity_matrix\<close> on every table with distinct ids that holds such a
  pair: no graph is built. For every other pair the score is 0.4 for the same category
  plus 0.3 for the same brand; it is the score of the claim when a price is unknown. On
  a table without a pair that reaches the price term the graph holds an edge, in both
  directions and with the score, exactly when the score exceeds 0.3.
\<close>

theorem fallback_score_raises_on_priced_pairs:
  assumes "products conn = Some ps" "distinct (map p_id ps)"
  shows "(\<forall>p q. calculate_product_similarity p q =
            (if reaches_price_term p q then Inl TypeError else Inr (category_brand_score p q))) \<and>
         (\<forall>p q. p_price p = None \<or> p_price q = None \<longrightarrow>
            \<not> reaches_price_term p q \<and> category_brand_score p q = spec_fallback_score p q) \<and>
         (\<forall>p q x y. p_price p = Some x \<and> p_price q = Some y \<and> 0 < x \<and> 0 < y \<longrightarrow>
            reaches_price_term p q \<and>
            spec_fallback_score p q =
              min (category_brand_score p q + 0.2 * (1 - \<bar>x - y\<bar> / max x y)) 1) \<and>
         ((\<exists>p\<in>set ps. \<exists>q\<in>set ps. p_id p \<noteq> p_id q \<and> reaches_price_term p q) \<longrightarrow>
            build_simple_similarity_matrix conn = Inl TypeError) \<and>
         ((\<forall>p\<in>set ps. \<forall>q\<in>set ps. p_id p \<noteq> p_id q \<longrightarrow> \<not> reaches_price_term p q) \<longrightarrow>
            (\<exists>G. build_simple_similarity_matrix conn = Inr G \<and>
               (\<forall>p\<in>set ps. \<forall>q\<in>set ps. p_id p \<noteq> p_id q \<longrightarrow>
                  lookup2 G (p_id p) (p_id q) =
                    (if 0.3 < category_brand_score p q
                     then Some (category_brand_score p q) else None) \<and>
                  lookup2 G (p_id q) (p_id p) = lookup2 G (p_id p) (p_id q))))"
proof -
  let ?ok = "sorted_wrt (\<lambda>p q. \<not> reaches_price_term p q) ps"
  have b: "build_simple_similarity_matrix conn = simple_similarity_loop ps []"
    using assms(1) by (simp add: build_simple_similarity_matrix_def)
  have 1: "build_simple_similarity_matrix conn = Inl TypeError"
    if "\<exists>p\<in>set ps. \<exists>q\<in>set ps. p_id p \<noteq> p_id q \<and> reaches_price_term p q"
  proof -
    have "\<not> ?ok" using that priced_pair_breaks_order[OF assms(2)] by blast
    then show ?thesis using simple_similarity_loop_raises[of ps "[]"] b by simp
  qed
  have 2: "\<exists>G. build_simple_similarity_matrix conn = Inr G \<and>
               (\<forall>p\<in>set ps. \<forall>q\<in>set ps. p_id p \<noteq> p_id q \<longrightarrow>
                  lookup2 G (p_id p) (p_id q) =
                    (if 0.3 < category_brand_score p q
                     then Some (category_brand_score p q) else None) \<and>
                  lookup2 G (p_id q) (p_id p) = lookup2 G (p_id p) (p_id q))"
    if h: "\<forall>p\<in>set ps. \<forall>q\<in>set ps. p_id p \<noteq> p_id q \<longrightarrow> \<not> reaches_price_term p q"
  proof -
    have "?ok" using unpriced_pairs_keep_order[OF assms(2) h] .
    then obtain G where G: "simple_similarity_loop ps [] = Inr G"
      using simple_similarity_loop_returns[of ps "[]"] by auto
    have e: "lookup2 G (p_id p) (p_id q) =
               (if 0.3 < category_brand_score p q then Some (category_brand_score p q) else None)"
      if "p \<in> set ps" "q \<in> set ps" "p_id p \<noteq> p_id q" for p q
      using that find_id_Some[OF assms(2)]
      by (simp add: simple_similarity_loop_lookup[OF assms(2) G] lookup2_Nil)
    have "lookup2 G (p_id p) (p_id q) =
               (if 0.3 < category_brand_score p q then Some (category_brand_score p q) else None) \<and>
          lookup2 G (p_id q) (p_id p) = lookup2 G (p_id p) (p_id q)"
      if "p \<in> set ps" "q \<in> set ps" "p_id p \<noteq> p_id q" for p q
      unfolding e[OF that] e[OF that(2) that(1) that(3)[symmetric]] category_brand_score_sym[of q p]
      by simp
    then have both: "\<forall>p\<in>set ps. \<forall>q\<in>set ps. p_id p \<noteq> p_id q \<longrightarrow>
                  lookup2 G (p_id p) (p_id q) =
                    (if 0.3 < category_brand_score p q
                     then Some (category_brand_score p q) else None) \<and>
                  lookup2 G (p_id q) (p_id p) = lookup2 G (p_id p) (p_id q)"
      by blast
    have g: "build_simple_similarity_matrix conn = Inr G" using G b by simp
    show ?thesis by (rule exI[of _ G]) (rule conjI[OF g both])
  qed
  show ?thesis
    using calculate_cases score_without_price score_with_prices 1 2 by blast
qed

theorem fallback_score_raises_witness:
  "products catalog_db = Some catalog \<and> distinct (map p_id catalog) \<and>
   calculate_product_similarity (mk_product 1 ''Phone A'' 100 ''X'' ''phone'')
     (mk_product 2 ''Phone B'' 120 ''X'' ''phone'') = Inl TypeError \<and>
   spec_fallback_score (mk_product 1 ''Phone A'' 100 ''X'' ''phone'')
     (mk_product 2 ''Phone B'' 120 ''X'' ''phone'') = 13 / 15 \<and>
   build_simple_similarity_matrix catalog_db = Inl TypeError \<and>
   fst (train_models no_ml untrained_service (mk_world catalog_db catalog_db no_files)) =
     Inl TypeError \<and>
   products (empty_db\<lparr>products := Some free_items\<rparr>) = Some free_items \<and>
   distinct (map p_id free_items) \<and>
   (\<exists>G. build_simple_similarity_matrix (empty_db\<lparr>products := Some free_items\<rparr>) = Inr G \<and>
        lookup2 G 1 3 = Some (2 / 5) \<and> lookup2 G 3 1 = Some (2 / 5) \<and>
        lookup2 G 1 2 = None \<and> lookup2 G 2 1 = None)"
proof -
  let ?p1 = "mk_product 1 ''Phone A'' 100 ''X'' ''phone''"
  let ?p2 = "mk_product 2 ''Phone B'' 120 ''X'' ''phone''"
  let ?f1 = "mk_product 1 ''Sticker'' 0 ''X'' ''accessory''"
  let ?f2 = "mk_product 2 ''Leaflet'' 0 ''X'' ''paper''"
  let ?f3 = "mk_product 3 ''Badge'' 0 ''Y'' ''accessory''"
  let ?db = "empty_db\<lparr>products := Some free_items\<rparr>"
  have a: "products catalog_db = Some catalog" by (simp add: catalog_db_def)
  have d: "distinct (map p_id catalog)" by (simp add: catalog_def mk_product_def)
  have m: "?p1 \<in> set catalog" "?p2 \<in> set catalog" by (simp_all add: catalog_def)
  have r: "p_id ?p1 \<noteq> p_id ?p2" "reaches_price_term ?p1 ?p2"
    by (simp_all add: mk_product_def reaches_price_term_def)
  have sp: "spec_fallback_score ?p1 ?p2 = 13 / 15"
    by (simp add: spec_fallback_score_def mk_product_def)
  have a': "products ?db = Some free_items" by simp
  have d': "distinct (map p_id free_items)" by (simp add: free_items_def mk_product_def)
  have m': "?f1 \<in> set free_items" "?f2 \<in> set free_items" "?f3 \<in> set free_items"
    by (simp_all add: free_items_def)
  have i': "p_id ?f1 = 1" "p_id ?f2 = 2" "p_id ?f3 = 3" by (simp_all add: mk_product_def)
  have v: "category_brand_score ?f1 ?f3 = 2 / 5" "category_brand_score ?f1 ?f2 = 3 / 10"
    by (simp_all add: category_brand_score_def mk_product_def)
  have u: "\<forall>p\<in>set free_items. \<forall>q\<in>set free_items. p_id p \<noteq> p_id q \<longrightarrow> \<not> reaches_price_term p q"
    by (simp add: free_items_def mk_product_def reaches_price_term_def)
  note t = fallback_score_raises_on_priced_pairs[OF a d]
  note t' = fallback_score_raises_on_priced_pairs[OF a' d']
  have c: "calculate_product_similarity ?p1 ?p2 = Inl TypeError"
    using t r(2) by simp
  have b: "build_simple_similarity_matrix catalog_db = Inl TypeError"
    using t m r by blast
  obtain G where G: "build_simple_similarity_matrix ?db = Inr G"
    "\<forall>p\<in>set free_items. \<forall>q\<in>set free_items. p_id p \<noteq> p_id q \<longrightarrow>
        lookup2 G (p_id p) (p_id q) =
          (if 0.3 < category_brand_score p q then Some (category_brand_score p q) else None) \<and>
        lookup2 G (p_id q) (p_id p) = lookup2 G (p_id p) (p_id q)"
    using t' u by blast
  have g13: "lookup2 G 1 3 = Some (2 / 5) \<and> lookup2 G 3 1 = Some (2 / 5)"
    using G(2)[rule_format, OF m'(1) m'(3)] by (simp add: i' v)
  have g12: "lookup2 G 1 2 = None \<and> lookup2 G 2 1 = None"
    using G(2)[rule_format, OF m'(1) m'(2)] by (simp add: i' v)
  have cp: "build_copurchase_matrix no_ml catalog_db = Inr []"
    by (simp add: build_copurchase_matrix_def no_ml_def build_simple_copurchase_matrix_def
        copurchase_query_def copurchase_join_def catalog_db_def)
  have sm: "build_similarity_matrix no_ml catalog_db = Inl TypeError"
    using b by (simp add: build_similarity_matrix_def no_ml_def)
  have tr: "fst (train_models no_ml untrained_service (mk_world catalog_db catalog_db no_files)) =
     Inl TypeError"
    by (simp add: train_models_def get_connection_def mk_world_def db_of_def log_connection_def
        cp sm)
  show ?thesis using a d c sp b tr a' d' G(1) g13 g12 by blast
qed

subsection \<open>Which co-purchase builder runs\<close>

lemma user_item_two_orders: "build_user_item_matrix two_orders_db = Some [[2, 2]]"
  by (simp add: build_user_item_matrix_def interactions_query_def two_orders_db_def
      mk_order_def mk_line_def)

lemma simple_two_orders:
  "build_simple_copurchase_matrix two_orders_db = Inr [(1, [(2, 2)]), (2, [(1, 2)])]"
  by (simp add: build_simple_copurchase_matrix_def copurchase_query_def two_orders_db_def
      copurchase_join_def mk_line_def copurchase_row_def set_item2_def)

lemma product_ids_two_orders: "product_ids_query two_orders_db = Inr [1, 2]"
  by (simp add: product_ids_query_def two_orders_db_def mk_line_def)

lemma length_matrix_factorization: "length (matrix_factorization env M) = n_items M"
  by (simp add: matrix_factorization_def)


text \<open>
  The difference does not depend on what the libraries compute: on that mirror no
  embedding and no cosine give the graph of the fallback.
\<close>

lemma factorized_whatever_the_library:
  assumes "ml_available env"
  shows "build_copurchase_matrix env two_orders_db \<noteq> build_simple_copurchase_matrix two_orders_db"
proof -
  let ?E = "matrix_factorization env [[2, 2]]"
  note p = product_ids_two_orders
  have n: "length ?E = 2" by (simp add: length_matrix_factorization n_items_def)
  show ?thesis
  proof (cases "cosine_similarity env ?E")
    case (Inl e)
    then show ?thesis
      using assms n
      by (simp add: build_copurchase_matrix_def Let_def user_item_two_orders p simple_two_orders)
  next
    case (Inr sims)
    show ?thesis
      using assms Inr n
      by (simp add: build_copurchase_matrix_def Let_def user_item_two_orders p simple_two_orders
          set_item2_def)
  qed
qed







subsection \<open>Similar products from a trained service\<close>

lemma no_self_set_item2:
  "no_self_edges m \<Longrightarrow> a \<noteq> b \<Longrightarrow> no_self_edges (set_item2 m a b v)"
  unfolding no_self_edges_def by (simp only: lookup2_set_item2) simp

lemma no_self_similarity_inner:
  assumes "no_self_edges m" "\<forall>(j, b)\<in>set rest. i \<noteq> j \<longrightarrow> a \<noteq> b"
  shows "no_self_edges (similarity_inner scores (i, a) rest m)"
  using assms
proof (induction rest arbitrary: m)
  case Nil
  then show ?case by simp
next
  case (Cons jb rest)
  obtain j b where jb: "jb = (j, b)" by (cases jb)
  show ?case
    using Cons.IH[of "set_item2 m a b (scores i j)"] Cons.IH[of m] Cons.prems
    by (auto simp: jb no_self_set_item2)
qed

lemma no_self_similarity_outer:
  assumes "no_self_edges m"
    "\<forall>(i, a)\<in>set todo. \<forall>(j, b)\<in>set all_ids. i \<noteq> j \<longrightarrow> a \<noteq> b"
  shows "no_self_edges (similarity_outer scores todo all_ids m)"
  using assms
proof (induction todo arbitrary: m)
  case Nil
  then show ?case by simp
next
  case (Cons ia todo)
  obtain i a where ia: "ia = (i, a)" by (cases ia)
  have "no_self_edges (similarity_inner scores (i, a) all_ids m)"
    using Cons.prems by (intro no_self_similarity_inner) (auto simp: ia)
  then show ?case
    using Cons.IH[of "similarity_inner scores (i, a) all_ids m"] Cons.prems
    by (simp add: ia)
qed

lemma enumerate_distinct:
  assumes "distinct ids" "(i, a) \<in> set (enumerate 0 ids)" "(j, b) \<in> set (enumerate 0 ids)" "i \<noteq> j"
  shows "a \<noteq> b"
  using assms by (auto simp: in_set_enumerate_eq nth_eq_iff_index_eq)

lemma lookup2_Nil': "no_self_edges []"
  by (simp add: no_self_edges_def lookup2_def)

lemma no_self_build_similarity:
  assumes "products conn = Some ps" "distinct (map p_id ps)"
    "build_similarity_matrix env conn = Inr m"
  shows "no_self_edges m"
proof (cases "ml_available env")
  case False
  then have "simple_similarity_loop ps [] = Inr m"
    using assms by (simp add: build_similarity_matrix_def build_simple_similarity_matrix_def)
  then show ?thesis
    unfolding no_self_edges_def
    by (simp add: simple_similarity_loop_lookup[OF assms(2)] lookup2_Nil split: option.splits)
next
  case True
  show ?thesis
  proof (cases "length ps < 2")
    case True
    then have "m = []"
      using assms \<open>ml_available env\<close> by (simp add: build_similarity_matrix_def)
    then show ?thesis by (simp add: lookup2_Nil')
  next
    case False
    then obtain scores where
      "m = similarity_outer scores (enumerate 0 (map p_id ps)) (enumerate 0 (map p_id ps)) []"
      using assms \<open>ml_available env\<close>
      by (auto simp: build_similarity_matrix_def Let_def split: sum.splits)
    moreover have "\<forall>(i, a)\<in>set (enumerate 0 (map p_id ps)).
                     \<forall>(j, b)\<in>set (enumerate 0 (map p_id ps)). i \<noteq> j \<longrightarrow> a \<noteq> b"
      using enumerate_distinct[OF assms(2)] by blast
    ultimately show ?thesis
      using no_self_similarity_outer[OF lookup2_Nil'] by simp
  qed
qed

lemma row_without_self:
  assumes "no_self_edges m" "map_of m a = Some row"
  shows "a \<notin> fst ` set row"
proof -
  have "lookup2 m a a = None" using assms(1) by (simp add: no_self_edges_def)
  then have "map_of row a = None" using assms(2) by (simp add: lookup2_def)
  then show ?thesis by (simp add: map_of_eq_None_iff)
qed

lemma ProductRecommendation_fields:
  "ProductRecommendation i product s why = Inr r \<Longrightarrow> r_product_id r = i \<and> r_score r = s"
  by (auto simp: ProductRecommendation_def split: option.splits)

lemma similar_recommendations_pairs:
  "similar_recommendations pf xs = Inr recs \<Longrightarrow>
     map (\<lambda>r. (r_product_id r, r_score r)) recs = filter (\<lambda>(i, s). map_of pf i \<noteq> None) xs"
proof (induction xs arbitrary: recs)
  case Nil
  then show ?case by simp
next
  case (Cons x xs)
  obtain i s where x: "x = (i, s)" by (cases x)
  show ?case
  proof (cases "map_of pf i")
    case None
    then show ?thesis using Cons x by simp
  next
    case (Some product)
    then obtain r rs where r: "ProductRecommendation i product s (SimilarML s) = Inr r"
      "similar_recommendations pf xs = Inr rs" "recs = r # rs"
      using Cons.prems x by (auto split: sum.splits)
    then show ?thesis
      using Cons.IH[OF r(2)] ProductRecommendation_fields[OF r(1)] Some x by simp
  qed
qed

lemma sorted_desc_sorted: "sorted_wrt (\<lambda>a b. snd b \<le> snd a) (sorted_desc xs)"
proof -
  have "sorted (map (\<lambda>x. - snd x) (sorted_desc xs))"
    unfolding sorted_desc_def by (rule sorted_sort_key)
  then show ?thesis by (simp add: sorted_map)
qed

lemma sorted_desc_stable:
  "filter (\<lambda>x. snd x = s) (sorted_desc xs) = filter (\<lambda>x. snd x = s) xs"
proof -
  have "filter (\<lambda>x. - snd x = - s) (sort_key (\<lambda>x. - snd x) xs) = filter (\<lambda>x. - snd x = - s) xs"
    by (rule sort_key_stable)
  then show ?thesis by (simp add: sorted_desc_def)
qed

lemma ranked_pairs_sorted:
  "sorted_wrt (\<lambda>a b. snd b \<le> snd a) (filter P (take n (sorted_desc xs)))"
  by (intro sorted_wrt_filter sorted_wrt_take sorted_desc_sorted)

lemma recs_sorted_of_pairs:
  assumes "map (\<lambda>r. (r_product_id r, r_score r)) recs = L" "sorted_wrt (\<lambda>a b. snd b \<le> snd a) L"
  shows "sorted_wrt (\<lambda>a b. r_score b \<le> r_score a) recs"
proof -
  have "sorted_wrt (\<lambda>a b. snd b \<le> snd a) (map (\<lambda>r. (r_product_id r, r_score r)) recs)"
    using assms by simp
  then show ?thesis by (simp add: sorted_wrt_map)
qed

text \<open>The fallback: bounded by the limit, without the product itself, all at score 0.6.\<close>

lemma fallback_similar_recommendations_fields:
  "fallback_similar_recommendations name results = Inr recs \<Longrightarrow>
     map r_product_id recs = map p_id results \<and> (\<forall>r\<in>set recs. r_score r = 0.6)"
proof (induction results arbitrary: recs)
  case Nil
  then show ?case by simp
next
  case (Cons p results)
  then obtain r rs where r: "ProductRecommendation (p_id p) p 0.6 (SameCategoryAs name) = Inr r"
      "fallback_similar_recommendations name results = Inr rs" "recs = r # rs"
    by (auto split: sum.splits)
  then show ?case
    using Cons.IH[OF r(2)] ProductRecommendation_fields[OF r(1)] by simp
qed

lemma same_category_query_bounds:
  assumes "same_category_query conn category product_id limit = Inr results"
  shows "0 \<le> limit \<and> length results \<le> nat limit \<and> product_id \<notin> p_id ` set results"
proof -
  obtain ps where ps: "products conn = Some ps"
    using assms by (auto simp: same_category_query_def split: option.splits)
  let ?all = "sort_key rating_price_key
               (filter (\<lambda>p. category \<noteq> None \<and> p_category p = category \<and> p_id p \<noteq> product_id \<and> in_stock p) ps)"
  have r: "0 \<le> limit" "results = take (nat limit) ?all"
    using assms ps by (auto simp: same_category_query_def sql_limit_def split: if_splits)
  have "set results \<subseteq> set ?all" unfolding r(2) by (rule set_take_subset)
  then have "product_id \<notin> p_id ` set results" by auto
  then show ?thesis using r by simp
qed

lemma constant_scores_sorted:
  "\<forall>r\<in>set xs. f r = (c::real) \<Longrightarrow> sorted_wrt (\<lambda>a b. f b \<le> f a) xs"
  by (induction xs) auto

lemma fallback_similar_body_cases:
  assumes "fallback_similar_body conn product_id limit = Inr recs"
  shows "recs = [] \<or>
         (\<exists>category name results.
             same_category_query conn category product_id limit = Inr results \<and>
             fallback_similar_recommendations name results = Inr recs)"
  using assms
  by (auto simp: fallback_similar_body_def split: option.splits sum.splits)

lemma fallback_similar_cases:
  "fst (get_fallback_similar_products w product_id limit) = [] \<or>
   (\<exists>conn. fallback_similar_body conn product_id limit =
              Inr (fst (get_fallback_similar_products w product_id limit)))"
proof (cases "get_connection Production w")
  case (Pair c w')
  show ?thesis
  proof (cases c)
    case (Inl e)
    then show ?thesis using Pair by (simp add: get_fallback_similar_products_def)
  next
    case (Inr conn)
    show ?thesis
    proof (cases "fallback_similar_body conn product_id limit")
      case (Inl e)
      then show ?thesis using Pair \<open>c = Inr conn\<close> by (simp add: get_fallback_similar_products_def)
    next
      case (Inr recs)
      then have "fst (get_fallback_similar_products w product_id limit) = recs"
        using Pair \<open>c = Inr conn\<close> by (simp add: get_fallback_similar_products_def)
      then show ?thesis using Inr by auto
    qed
  qed
qed

lemma fallback_similar_bounds:
  assumes "0 \<le> limit"
  shows "length (fst (get_fallback_similar_products w product_id limit)) \<le> nat limit \<and>
         product_id \<notin> r_product_id ` set (fst (get_fallback_similar_products w product_id limit)) \<and>
         sorted_wrt (\<lambda>a b. r_score b \<le> r_score a) (fst (get_fallback_similar_products w product_id limit))"
proof -
  let ?recs = "fst (get_fallback_similar_products w product_id limit)"
  consider (empty) "?recs = []"
    | (rows) conn category name results where
        "same_category_query conn category product_id limit = Inr results"
        "fallback_similar_recommendations name results = Inr ?recs"
    using fallback_similar_cases[of w product_id limit] fallback_similar_body_cases
    by blast
  then show ?thesis
  proof cases
    case empty
    then show ?thesis by simp
  next
    case rows
    note b = same_category_query_bounds[OF rows(1)]
    note f = fallback_similar_recommendations_fields[OF rows(2)]
    have l: "length ?recs = length results"
      using f by (metis length_map)
    have i: "r_product_id ` set ?recs = p_id ` set results"
      using f by (metis set_map)
    have "sorted_wrt (\<lambda>a b. r_score b \<le> r_score a) ?recs"
      using f constant_scores_sorted[of ?recs r_score "0.6"] by blast
    then show ?thesis using b l i by simp
  qed
qed

lemma train_success:
  assumes "train_models env self0 w0 = (Inr result, self, w1)"
  shows "models_trained self \<and>
         (\<exists>sm. build_similarity_matrix env (analytics w0) = Inr sm \<and> similarity_matrix self = Some sm) \<and>
         products (analytics w0) \<noteq> None"
  using assms
  by (auto simp: train_models_def get_connection_def db_of_def load_product_features_def Let_def
      split: if_splits sum.splits prod.splits option.splits)

lemma py_slice_to_nonneg: "0 \<le> limit \<Longrightarrow> py_slice_to xs limit = take (nat limit) xs"
  by (simp add: py_slice_to_def)

lemma row_keys_set_item2:
  "row_keys (set_item2 m a b v) x =
     (if x = a then (if b \<in> set (row_keys m a) then row_keys m a else row_keys m a @ [b])
      else row_keys m x)"
  by (simp add: row_keys_def map_of_set_item2 update_keys)

lemma row_keys_Nil: "row_keys [] a = []"
  by (simp add: row_keys_def)

lemma append_key_sorted:
  assumes "sorted_wrt (<) ks" "\<forall>k\<in>set ks. k < (b::int)"
  shows "sorted_wrt (<) (ks @ [b])" "b \<notin> set ks"
  using assms by (auto simp: sorted_wrt_append)

lemma similarity_inner_rows:
  assumes "sorted_wrt (<) (map snd rest)"
    "\<forall>k\<in>set (row_keys m a). \<forall>jb\<in>set rest. k < snd jb"
    "sorted_wrt (<) (row_keys m a)"
  shows "sorted_wrt (<) (row_keys (similarity_inner scores (i, a) rest m) a) \<and>
         (\<forall>x. x \<noteq> a \<longrightarrow> row_keys (similarity_inner scores (i, a) rest m) x = row_keys m x)"
  using assms
proof (induction rest arbitrary: m)
  case Nil
  then show ?case by simp
next
  case (Cons jb rest)
  obtain j b where jb: "jb = (j, b)" by (cases jb)
  have s: "sorted_wrt (<) (map snd rest)" "\<forall>jb'\<in>set rest. b < snd jb'"
    using Cons.prems(1) jb by auto
  have below: "\<forall>k\<in>set (row_keys m a). k < b"
    using Cons.prems(2) jb by auto
  show ?case
  proof (cases "i \<noteq> j \<and> scores i j > 0.3")
    case False
    then have e: "similarity_inner scores (i, a) (jb # rest) m = similarity_inner scores (i, a) rest m"
      using jb by auto
    show ?thesis unfolding e
      using Cons.IH[of m] s Cons.prems by auto
  next
    case True
    let ?m = "set_item2 m a b (scores i j)"
    have e: "similarity_inner scores (i, a) (jb # rest) m = similarity_inner scores (i, a) rest ?m"
      using True jb by auto
    have k: "row_keys ?m a = row_keys m a @ [b]"
      using append_key_sorted(2)[OF Cons.prems(3) below] by (simp add: row_keys_set_item2)
    have k1: "sorted_wrt (<) (row_keys ?m a)"
      unfolding k using append_key_sorted(1)[OF Cons.prems(3) below] .
    have k2: "\<forall>k\<in>set (row_keys ?m a). \<forall>jb\<in>set rest. k < snd jb"
      unfolding k using Cons.prems(2) s(2) by auto
    have o: "\<forall>x. x \<noteq> a \<longrightarrow> row_keys ?m x = row_keys m x"
      by (simp add: row_keys_set_item2)
    show ?thesis unfolding e
      using Cons.IH[OF s(1) k2 k1] o by auto
  qed
qed

lemma similarity_outer_rows:
  assumes "distinct (map snd todo)" "sorted_wrt (<) (map snd all_ids)" "rows_ascending m"
    "\<forall>ia\<in>set todo. row_keys m (snd ia) = []"
  shows "rows_ascending (similarity_outer scores todo all_ids m)"
  using assms
proof (induction todo arbitrary: m)
  case Nil
  then show ?case by simp
next
  case (Cons ia todo)
  obtain i a where ia: "ia = (i, a)" by (cases ia)
  let ?m = "similarity_inner scores (i, a) all_ids m"
  have a0: "row_keys m a = []" using Cons.prems(4) ia by auto
  have inner: "sorted_wrt (<) (row_keys ?m a)" "\<forall>x. x \<noteq> a \<longrightarrow> row_keys ?m x = row_keys m x"
    using similarity_inner_rows[OF Cons.prems(2), of m a scores i] a0 by auto
  have r: "rows_ascending ?m"
    unfolding rows_ascending_def
  proof
    fix x show "sorted_wrt (<) (row_keys ?m x)"
      using inner Cons.prems(3) by (cases "x = a") (auto simp: rows_ascending_def)
  qed
  have "a \<notin> snd ` set todo" using Cons.prems(1) ia by auto
  have e: "\<forall>ia\<in>set todo. row_keys ?m (snd ia) = []"
  proof
    fix y assume y: "y \<in> set todo"
    then have "snd y \<noteq> a" using \<open>a \<notin> snd ` set todo\<close> by auto
    then have "row_keys ?m (snd y) = row_keys m (snd y)" using inner(2) by blast
    then show "row_keys ?m (snd y) = []" using Cons.prems(4) y by simp
  qed
  have d: "distinct (map snd todo)" using Cons.prems(1) by simp
  show ?case
    using Cons.IH[OF d Cons.prems(2) r e] by (simp add: ia)
qed

lemma similarity_row_rows:
  assumes "sorted_wrt (<) (map p_id rest)" "\<forall>q\<in>set rest. p_id p1 < p_id q"
    "rows_ascending m"
    "\<forall>k\<in>set (row_keys m (p_id p1)). \<forall>q\<in>set rest. k < p_id q"
    "\<forall>q\<in>set rest. \<forall>k\<in>set (row_keys m (p_id q)). k < p_id p1"
    "similarity_row p1 rest m = Inr m'"
  shows "rows_ascending m' \<and>
         (\<forall>x. \<forall>k\<in>set (row_keys m' x). k \<in> set (row_keys m x) \<or> x = p_id p1 \<or> k = p_id p1)"
  using assms
proof (induction rest arbitrary: m)
  case Nil
  then show ?case by simp
next
  case (Cons q rest)
  obtain m1 where m1: "similarity_pair p1 q m = Inr m1" "similarity_row p1 rest m1 = Inr m'"
    using Cons.prems(6) by (auto split: sum.splits)
  let ?a = "p_id p1" and ?b = "p_id q"
  have ab: "?a < ?b" using Cons.prems(2) by simp
  have s: "sorted_wrt (<) (map p_id rest)" "\<forall>q'\<in>set rest. ?b < p_id q'"
    "\<forall>q'\<in>set rest. ?a < p_id q'"
    using Cons.prems(1,2) by auto
  show ?case
  proof (cases "0.3 < category_brand_score p1 q")
    case False
    then have e: "m1 = m" using m1(1) by (simp add: similarity_pair_Inr)
    show ?thesis
      using Cons.IH[OF s(1) s(3) Cons.prems(3) _ _ m1(2)[unfolded e]] Cons.prems(4,5) by simp
  next
    case True
    let ?v = "category_brand_score p1 q"
    let ?m1 = "set_item2 m ?a ?b ?v"
    let ?m2 = "set_item2 ?m1 ?b ?a ?v"
    have e: "m1 = ?m2" using True m1(1) by (simp add: similarity_pair_Inr)
    have ka: "\<forall>k\<in>set (row_keys m ?a). k < ?b" using Cons.prems(4) by simp
    have kb: "\<forall>k\<in>set (row_keys m ?b). k < ?a" using Cons.prems(5) by simp
    have sa: "sorted_wrt (<) (row_keys m ?a)" "sorted_wrt (<) (row_keys m ?b)"
      using Cons.prems(3) by (simp_all add: rows_ascending_def)
    have r1a: "row_keys ?m1 ?a = row_keys m ?a @ [?b]"
      using append_key_sorted(2)[OF sa(1) ka] by (simp add: row_keys_set_item2)
    have r1o: "row_keys ?m1 x = row_keys m x" if "x \<noteq> ?a" for x
      using that by (simp add: row_keys_set_item2)
    have r2b: "row_keys ?m2 ?b = row_keys m ?b @ [?a]"
      using append_key_sorted(2)[OF sa(2) kb] ab r1o[of ?b] by (simp add: row_keys_set_item2)
    have r2a: "row_keys ?m2 ?a = row_keys m ?a @ [?b]"
      using ab r1a by (simp add: row_keys_set_item2)
    have r2o: "row_keys ?m2 x = row_keys m x" if "x \<noteq> ?a" "x \<noteq> ?b" for x
      using that r1o by (simp add: row_keys_set_item2)
    have keys: "row_keys ?m2 x =
        (if x = ?a then row_keys m ?a @ [?b] else if x = ?b then row_keys m ?b @ [?a]
         else row_keys m x)" for x
      using r2a r2b r2o ab by auto
    have asc: "rows_ascending ?m2"
      unfolding rows_ascending_def
    proof
      fix x show "sorted_wrt (<) (row_keys ?m2 x)"
        unfolding keys
        using append_key_sorted(1)[OF sa(1) ka] append_key_sorted(1)[OF sa(2) kb] Cons.prems(3)
        by (auto simp: rows_ascending_def)
    qed
    have p4: "\<forall>k\<in>set (row_keys ?m2 ?a). \<forall>q'\<in>set rest. k < p_id q'"
      unfolding keys using Cons.prems(4) s(2) by auto
    have p5: "\<forall>q'\<in>set rest. \<forall>k\<in>set (row_keys ?m2 (p_id q')). k < ?a"
    proof
      fix q' assume q': "q' \<in> set rest"
      then have "p_id q' \<noteq> ?a" "p_id q' \<noteq> ?b" using s(2,3) by auto
      then have "row_keys ?m2 (p_id q') = row_keys m (p_id q')" by (simp add: keys)
      then show "\<forall>k\<in>set (row_keys ?m2 (p_id q')). k < ?a"
        using Cons.prems(5) q' by simp
    qed
    note ih = Cons.IH[OF s(1) s(3) asc p4 p5 m1(2)[unfolded e]]
    have grow: "\<forall>x. \<forall>k\<in>set (row_keys ?m2 x). k \<in> set (row_keys m x) \<or> x = ?a \<or> k = ?a"
      unfolding keys by auto
    show ?thesis
      using ih grow by blast
  qed
qed

lemma simple_similarity_loop_rows:
  assumes "sorted_wrt (<) (map p_id ps)" "rows_ascending m"
    "\<forall>p\<in>set ps. \<forall>k\<in>set (row_keys m (p_id p)). \<forall>q\<in>set ps. k < p_id q"
    "simple_similarity_loop ps m = Inr G"
  shows "rows_ascending G"
  using assms
proof (induction ps arbitrary: m)
  case Nil
  then show ?case by simp
next
  case (Cons p1 rest)
  obtain m1 where m1: "similarity_row p1 rest m = Inr m1" "simple_similarity_loop rest m1 = Inr G"
    using Cons.prems(4) by (auto split: sum.splits)
  have s: "sorted_wrt (<) (map p_id rest)" "\<forall>q\<in>set rest. p_id p1 < p_id q"
    using Cons.prems(1) by auto
  have p4: "\<forall>k\<in>set (row_keys m (p_id p1)). \<forall>q\<in>set rest. k < p_id q"
    using Cons.prems(3) by auto
  have p5: "\<forall>q\<in>set rest. \<forall>k\<in>set (row_keys m (p_id q)). k < p_id p1"
    using Cons.prems(3) by auto
  note f = similarity_row_rows[OF s Cons.prems(2) p4 p5 m1(1)]
  have n: "\<forall>p\<in>set rest. \<forall>k\<in>set (row_keys m1 (p_id p)). \<forall>q\<in>set rest. k < p_id q"
  proof (intro ballI)
    fix p k q assume h: "p \<in> set rest" "k \<in> set (row_keys m1 (p_id p))" "q \<in> set rest"
    then have "k \<in> set (row_keys m (p_id p)) \<or> p_id p = p_id p1 \<or> k = p_id p1"
      using f by blast
    moreover have "p_id p \<noteq> p_id p1" using s(2) h(1) by auto
    ultimately show "k < p_id q"
      using Cons.prems(3) s(2) h(1,3) by auto
  qed
  show ?case
    using Cons.IH[OF s(1) _ n m1(2)] f by simp
qed

lemma rows_ascending_Nil: "rows_ascending []"
  by (simp add: rows_ascending_def row_keys_Nil)

lemma build_similarity_rows_ascending:
  assumes "products conn = Some ps" "sorted_wrt (<) (map p_id ps)"
    "build_similarity_matrix env conn = Inr m"
  shows "rows_ascending m"
proof (cases "ml_available env")
  case False
  then have "simple_similarity_loop ps [] = Inr m"
    using assms by (simp add: build_similarity_matrix_def build_simple_similarity_matrix_def)
  then show ?thesis
    using simple_similarity_loop_rows[OF assms(2) rows_ascending_Nil] by (simp add: row_keys_Nil)
next
  case True
  show ?thesis
  proof (cases "length ps < 2")
    case True
    then have "m = []"
      using assms \<open>ml_available env\<close> by (simp add: build_similarity_matrix_def)
    then show ?thesis by (simp add: rows_ascending_Nil)
  next
    case False
    then obtain scores where
      m: "m = similarity_outer scores (enumerate 0 (map p_id ps)) (enumerate 0 (map p_id ps)) []"
      using assms \<open>ml_available env\<close>
      by (auto simp: build_similarity_matrix_def Let_def split: sum.splits)
    have e: "map snd (enumerate 0 (map p_id ps)) = map p_id ps" by simp
    have d: "distinct (map p_id ps)" using assms(2) by (simp add: strict_sorted_iff)
    show ?thesis
      unfolding m
      by (rule similarity_outer_rows) (simp_all add: e d assms(2) rows_ascending_Nil row_keys_Nil)
  qed
qed

text \<open>A stable descending sort of a row with ascending keys breaks ties by ascending key.\<close>

lemma stable_sort_breaks_ties:
  fixes ys :: "(int \<times> real) list"
  assumes "sorted_wrt (\<lambda>a b. snd b \<le> snd a) ys"
    "\<forall>s. sorted_wrt (<) (map fst (filter (\<lambda>x. snd x = s) ys))"
  shows "sorted_wrt (\<lambda>a b. snd b < snd a \<or> (snd b = snd a \<and> fst a < fst b)) ys"
  using assms
proof (induction ys)
  case Nil
  then show ?case by simp
next
  case (Cons y ys)
  have t: "\<forall>s. sorted_wrt (<) (map fst (filter (\<lambda>x. snd x = s) ys))"
  proof
    fix s show "sorted_wrt (<) (map fst (filter (\<lambda>x. snd x = s) ys))"
      using Cons.prems(2)[rule_format, of s] by (cases "snd y = s") auto
  qed
  have h: "\<forall>z\<in>set ys. snd z < snd y \<or> (snd z = snd y \<and> fst y < fst z)"
  proof
    fix z assume z: "z \<in> set ys"
    then have le: "snd z \<le> snd y" using Cons.prems(1) by auto
    show "snd z < snd y \<or> (snd z = snd y \<and> fst y < fst z)"
    proof (cases "snd z = snd y")
      case True
      have "sorted_wrt (<) (fst y # map fst (filter (\<lambda>x. snd x = snd y) ys))"
        using Cons.prems(2)[rule_format, of "snd y"] by simp
      moreover have "fst z \<in> set (map fst (filter (\<lambda>x. snd x = snd y) ys))"
        using z True by auto
      ultimately have "fst y < fst z" by auto
      then show ?thesis using True by simp
    next
      case False
      then show ?thesis using le by auto
    qed
  qed
  have s1: "sorted_wrt (\<lambda>a b. snd b \<le> snd a) ys" using Cons.prems(1) by simp
  show ?case
    using Cons.IH[OF s1 t] h by simp
qed

lemma sorted_desc_ascending_ties:
  fixes xs :: "(int \<times> real) list"
  assumes "sorted_wrt (<) (map fst xs)"
  shows "sorted_wrt (\<lambda>a b. snd b < snd a \<or> (snd b = snd a \<and> fst a < fst b)) (sorted_desc xs)"
proof -
  have "\<forall>s. sorted_wrt (<) (map fst (filter (\<lambda>x. snd x = s) (sorted_desc xs)))"
  proof
    fix s
    have "sorted_wrt (<) (map fst (filter (\<lambda>x. snd x = s) xs))"
      using assms by (simp add: sorted_wrt_map sorted_wrt_filter)
    then show "sorted_wrt (<) (map fst (filter (\<lambda>x. snd x = s) (sorted_desc xs)))"
      by (simp add: sorted_desc_stable)
  qed
  then show ?thesis
    using stable_sort_breaks_ties[OF sorted_desc_sorted] by blast
qed

text \<open>
  C5, amended. In every state that a successful training run leaves behind, on a mirror
  whose product ids are distinct, for every product with a row in the similarity matrix
  and every limit that is not negative, \<^verbatim>\<open>get_similar_products\<close> returns at most limit
  entries, none of them the product itself, in order of non-increasing score. When the
  trained path builds the list, it is the stored row sorted by descending score, cut at
  the limit and without the ids that have no feature row; the sort is stable, so
  neighbours of equal score keep the order of the stored row, and that order is ascending
  product id whenever the training run read the products table by ascending id.
\<close>

theorem trained_similar_bounded_sorted_without_self:
  assumes "train_models env self0 w0 = (Inr result, self, w1)"
    and "distinct (map p_id (rows_of (products (analytics w0))))"
    and "similarity_matrix self = Some m" and "map_of m product_id = Some similar"
    and "0 \<le> limit"
  shows "length (fst (get_similar_products self w product_id limit)) \<le> nat limit \<and>
         product_id \<notin> r_product_id ` set (fst (get_similar_products self w product_id limit)) \<and>
         sorted_wrt (\<lambda>a b. r_score b \<le> r_score a) (fst (get_similar_products self w product_id limit)) \<and>
         (\<forall>rs. similar_recommendations (product_features self)
                  (take (nat limit) (sorted_desc similar)) = Inr rs \<longrightarrow>
               fst (get_similar_products self w product_id limit) = rs \<and>
               map (\<lambda>r. (r_product_id r, r_score r)) rs =
                 filter (\<lambda>(i, s). map_of (product_features self) i \<noteq> None)
                        (take (nat limit) (sorted_desc similar)) \<and>
               (sorted_wrt (<) (map p_id (rows_of (products (analytics w0)))) \<longrightarrow>
                  sorted_wrt (\<lambda>a b. r_score b < r_score a \<or>
                                     (r_score b = r_score a \<and> r_product_id a < r_product_id b)) rs)) \<and>
         (\<forall>s. filter (\<lambda>x. snd x = s) (sorted_desc similar) = filter (\<lambda>x. snd x = s) similar)"
proof -
  let ?got = "fst (get_similar_products self w product_id limit)"
  let ?ranked = "take (nat limit) (sorted_desc similar)"
  let ?known = "\<lambda>(i, s). map_of (product_features self) i \<noteq> None"
  let ?lex = "\<lambda>a b. snd b < snd a \<or> (snd b = snd a \<and> fst a < (fst b :: int))"
  from train_success[OF assms(1)] assms(3)
  obtain ps where t: "models_trained self" "build_similarity_matrix env (analytics w0) = Inr m"
    "products (analytics w0) = Some ps"
    by auto
  have d: "distinct (map p_id ps)" using assms(2) t(3) by (simp add: rows_of_def)
  have ns: "product_id \<notin> fst ` set similar"
    using row_without_self[OF no_self_build_similarity[OF t(3) d t(2)] assms(4)] .
  have unf: "get_similar_products self w product_id limit =
        (case similar_recommendations (product_features self) ?ranked of
           Inl e \<Rightarrow> get_fallback_similar_products w product_id limit
         | Inr recommendations \<Rightarrow> (recommendations, w))"
    using t(1) assms(3,4,5) by (simp add: get_similar_products_def py_slice_to_nonneg)
  have main: "length ?got \<le> nat limit \<and> product_id \<notin> r_product_id ` set ?got \<and>
         sorted_wrt (\<lambda>a b. r_score b \<le> r_score a) ?got"
  proof (cases "similar_recommendations (product_features self) ?ranked")
    case (Inl e)
    then show ?thesis using unf fallback_similar_bounds[OF assms(5), of w product_id] by simp
  next
    case (Inr rs)
    then have g: "?got = rs" using unf by simp
    note p = similar_recommendations_pairs[OF Inr]
    have "length rs = length (filter ?known ?ranked)" using p by (metis length_map)
    also have "\<dots> \<le> length ?ranked" by (rule length_filter_le)
    also have "\<dots> \<le> nat limit" by simp
    finally have l: "length rs \<le> nat limit" .
    have "r_product_id ` set rs = fst ` set (map (\<lambda>r. (r_product_id r, r_score r)) rs)"
      by (auto simp: image_iff)
    also have "\<dots> \<subseteq> fst ` set ?ranked" unfolding p by auto
    also have "\<dots> \<subseteq> fst ` set (sorted_desc similar)"
      using set_take_subset[of "nat limit" "sorted_desc similar"] by blast
    also have "\<dots> = fst ` set similar" by (simp add: sorted_desc_def)
    finally have i: "product_id \<notin> r_product_id ` set rs" using ns by blast
    have s: "sorted_wrt (\<lambda>a b. r_score b \<le> r_score a) rs"
      using recs_sorted_of_pairs[OF p ranked_pairs_sorted] .
    show ?thesis using g l i s by simp
  qed
  have path: "?got = rs \<and> map (\<lambda>r. (r_product_id r, r_score r)) rs = filter ?known ?ranked"
    if "similar_recommendations (product_features self) ?ranked = Inr rs" for rs
    using that unf similar_recommendations_pairs[OF that] by simp
  have ties: "sorted_wrt (\<lambda>a b. r_score b < r_score a \<or>
                            (r_score b = r_score a \<and> r_product_id a < r_product_id b)) rs"
    if r: "similar_recommendations (product_features self) ?ranked = Inr rs"
      and o: "sorted_wrt (<) (map p_id (rows_of (products (analytics w0))))" for rs
  proof -
    have "sorted_wrt (<) (map p_id ps)" using o t(3) by (simp add: rows_of_def)
    then have "rows_ascending m" using build_similarity_rows_ascending[OF t(3) _ t(2)] by simp
    then have "sorted_wrt (<) (map fst similar)"
      using assms(4) by (auto simp: rows_ascending_def row_keys_def dest!: spec[where x=product_id])
    then have "sorted_wrt ?lex (filter ?known ?ranked)"
      by (intro sorted_wrt_filter sorted_wrt_take sorted_desc_ascending_ties)
    then have "sorted_wrt ?lex (map (\<lambda>r. (r_product_id r, r_score r)) rs)"
      using similar_recommendations_pairs[OF r] by simp
    then show ?thesis by (simp add: sorted_wrt_map)
  qed
  show ?thesis using main path ties sorted_desc_stable by blast
qed

lemma twin_scores:
  "calculate_product_similarity (mk_product 1 ''Phone case'' 15 ''X'' ''accessory'')
     (mk_product 3 ''Sticker black'' 0 ''X'' ''accessory'') = Inr (7 / 10)"
  "calculate_product_similarity (mk_product 1 ''Phone case'' 15 ''X'' ''accessory'')
     (mk_product 2 ''Sticker white'' 0 ''X'' ''accessory'') = Inr (7 / 10)"
  "calculate_product_similarity (mk_product 3 ''Sticker black'' 0 ''X'' ''accessory'')
     (mk_product 2 ''Sticker white'' 0 ''X'' ''accessory'') = Inr (7 / 10)"
  "calculate_product_similarity (mk_product 2 ''Sticker white'' 0 ''X'' ''accessory'')
     (mk_product 3 ''Sticker black'' 0 ''X'' ''accessory'') = Inr (7 / 10)"
  by (simp_all add: calculate_product_similarity_def mk_product_def py_bool_num_def)

lemma train_twins:
  "fst (train_models no_ml untrained_service (twin_world twins)) =
     Inr \<lparr> products_count = 3, copurchase_pairs = 0, similarity_pairs = 3 \<rparr> \<and>
   fst (snd (train_models no_ml untrained_service (twin_world twins))) = twin_trained"
proof -
  have c: "build_copurchase_matrix no_ml (empty_db\<lparr>products := Some twins\<rparr>) = Inr []"
    by (simp add: build_copurchase_matrix_def no_ml_def build_simple_copurchase_matrix_def
        copurchase_query_def copurchase_join_def empty_db_def)
  have s: "build_similarity_matrix no_ml (empty_db\<lparr>products := Some twins\<rparr>) =
             Inr [(1, [(3, 7 / 10), (2, 7 / 10)]), (3, [(1, 7 / 10), (2, 7 / 10)]),
                  (2, [(1, 7 / 10), (3, 7 / 10)])]"
    by (simp add: build_similarity_matrix_def no_ml_def build_simple_similarity_matrix_def
        empty_db_def twins_def similarity_pair_def twin_scores Let_def)
       (simp add: set_item2_def mk_product_def Let_def)
  have f: "load_product_features (empty_db\<lparr>products := Some twins\<rparr>) =
             Inr (map (\<lambda>p. (p_id p, p)) twins)"
    by (simp add: load_product_features_def empty_db_def twins_def mk_product_def)
  have len: "length twins = 3" by (simp add: twins_def)
  show ?thesis
    by (simp add: train_models_def get_connection_def twin_world_def mk_world_def db_of_def
        log_connection_def c s f len Let_def untrained_service_def twin_trained_def)
qed

lemma train_twins_by_id:
  "fst (train_models no_ml untrained_service (twin_world twins_by_id)) =
     Inr \<lparr> products_count = 3, copurchase_pairs = 0, similarity_pairs = 3 \<rparr> \<and>
   fst (snd (train_models no_ml untrained_service (twin_world twins_by_id))) = twin_trained_by_id"
proof -
  have c: "build_copurchase_matrix no_ml (empty_db\<lparr>products := Some twins_by_id\<rparr>) = Inr []"
    by (simp add: build_copurchase_matrix_def no_ml_def build_simple_copurchase_matrix_def
        copurchase_query_def copurchase_join_def empty_db_def)
  have s: "build_similarity_matrix no_ml (empty_db\<lparr>products := Some twins_by_id\<rparr>) =
             Inr [(1, [(2, 7 / 10), (3, 7 / 10)]), (2, [(1, 7 / 10), (3, 7 / 10)]),
                  (3, [(1, 7 / 10), (2, 7 / 10)])]"
    by (simp add: build_similarity_matrix_def no_ml_def build_simple_similarity_matrix_def
        empty_db_def twins_by_id_def similarity_pair_def twin_scores Let_def)
       (simp add: set_item2_def mk_product_def Let_def)
  have f: "load_product_features (empty_db\<lparr>products := Some twins_by_id\<rparr>) =
             Inr (map (\<lambda>p. (p_id p, p)) twins_by_id)"
    by (simp add: load_product_features_def empty_db_def twins_by_id_def mk_product_def)
  have len: "length twins_by_id = 3" by (simp add: twins_by_id_def)
  show ?thesis
    by (simp add: train_models_def get_connection_def twin_world_def mk_world_def db_of_def
        log_connection_def c s f len Let_def untrained_service_def twin_trained_by_id_def)
qed

lemma similar_twins:
  "map (\<lambda>r. (r_product_id r, r_score r)) (fst (get_similar_products twin_trained w 1 10)) =
     [(3, 7 / 10), (2, 7 / 10)]"
  "map (\<lambda>r. (r_product_id r, r_score r)) (fst (get_similar_products twin_trained w 1 2)) =
     [(3, 7 / 10), (2, 7 / 10)]"
  "map r_product_id (fst (get_similar_products twin_trained w 1 (-1))) = [3]"
  "map (\<lambda>r. (r_product_id r, r_score r)) (fst (get_similar_products twin_trained_by_id w 1 2)) =
     [(2, 7 / 10), (3, 7 / 10)]"
  by (simp_all add: get_similar_products_def twin_trained_def twin_trained_by_id_def
      py_slice_to_def sorted_desc_def twins_def twins_by_id_def mk_product_def
      ProductRecommendation_def)

text \<open>
  C5, as stated, fails in two places. After a training run on a mirror whose products
  table lists product 3 before product 2, the two being equally similar to product 1, the
  neighbours of product 1 come back as 3, 2: the tie is not broken by ascending product
  id, the order of the stored row is kept. And with limit -1 the slice drops the last
  neighbour and one entry comes back, which is more than the limit.
\<close>

theorem similar_ties_keep_row_order_and_negative_limit:
  "fst (snd (train_models no_ml untrained_service (twin_world twins))) = twin_trained \<and>
   map (\<lambda>r. (r_product_id r, r_score r))
     (fst (get_similar_products twin_trained (twin_world twins) 1 10)) =
     [(3, 7 / 10), (2, 7 / 10)] \<and>
   map r_product_id (fst (get_similar_products twin_trained (twin_world twins) 1 (-1))) = [3] \<and>
   \<not> int (length (fst (get_similar_products twin_trained (twin_world twins) 1 (-1)))) \<le> -1"
proof -
  have "length (map r_product_id (fst (get_similar_products twin_trained (twin_world twins) 1 (-1)))) = 1"
    by (simp only: similar_twins) simp
  then show ?thesis using train_twins similar_twins(1,3) by simp
qed

theorem trained_similar_witness:
  "(0::int) \<le> 2 \<and>
   distinct (map p_id (rows_of (products (analytics (twin_world twins))))) \<and>
   fst (snd (train_models no_ml untrained_service (twin_world twins))) = twin_trained \<and>
   length (fst (get_similar_products twin_trained (twin_world twins) 1 2)) \<le> 2 \<and>
   1 \<notin> r_product_id ` set (fst (get_similar_products twin_trained (twin_world twins) 1 2)) \<and>
   map (\<lambda>r. (r_product_id r, r_score r))
     (fst (get_similar_products twin_trained (twin_world twins) 1 2)) =
     [(3, 7 / 10), (2, 7 / 10)] \<and>
   sorted_wrt (<) (map p_id (rows_of (products (analytics (twin_world twins_by_id))))) \<and>
   fst (snd (train_models no_ml untrained_service (twin_world twins_by_id))) = twin_trained_by_id \<and>
   map (\<lambda>r. (r_product_id r, r_score r))
     (fst (get_similar_products twin_trained_by_id (twin_world twins_by_id) 1 2)) =
     [(2, 7 / 10), (3, 7 / 10)] \<and>
   sorted_wrt (\<lambda>a b. r_score b < r_score a \<or> (r_score b = r_score a \<and> r_product_id a < r_product_id b))
     (fst (get_similar_products twin_trained_by_id (twin_world twins_by_id) 1 2))"
proof -
  let ?t = "train_models no_ml untrained_service (twin_world twins)"
  let ?u = "train_models no_ml untrained_service (twin_world twins_by_id)"
  let ?row = "[(3, 7 / 10), (2, 7 / 10)] :: (int \<times> real) list"
  let ?row' = "[(2, 7 / 10), (3, 7 / 10)] :: (int \<times> real) list"
  have h: "?t = (Inr \<lparr> products_count = 3, copurchase_pairs = 0, similarity_pairs = 3 \<rparr>,
                 twin_trained, snd (snd ?t))"
    using train_twins by (metis prod.collapse)
  have h': "?u = (Inr \<lparr> products_count = 3, copurchase_pairs = 0, similarity_pairs = 3 \<rparr>,
                 twin_trained_by_id, snd (snd ?u))"
    using train_twins_by_id by (metis prod.collapse)
  have d: "distinct (map p_id (rows_of (products (analytics (twin_world twins)))))"
    by (simp add: twin_world_def mk_world_def rows_of_def twins_def mk_product_def)
  have o: "sorted_wrt (<) (map p_id (rows_of (products (analytics (twin_world twins_by_id)))))"
    by (simp add: twin_world_def mk_world_def rows_of_def twins_by_id_def mk_product_def)
  then have d': "distinct (map p_id (rows_of (products (analytics (twin_world twins_by_id)))))"
    by (simp add: strict_sorted_iff)
  have m: "similarity_matrix twin_trained = Some (the (similarity_matrix twin_trained))"
    "map_of (the (similarity_matrix twin_trained)) 1 = Some ?row"
    "similarity_matrix twin_trained_by_id = Some (the (similarity_matrix twin_trained_by_id))"
    "map_of (the (similarity_matrix twin_trained_by_id)) 1 = Some ?row'"
    by (simp_all add: twin_trained_def twin_trained_by_id_def)
  have z: "(0::int) \<le> 2" by simp
  obtain rs where x: "similar_recommendations (product_features twin_trained_by_id)
              (take (nat 2) (sorted_desc ?row')) = Inr rs"
    by (simp add: sorted_desc_def twin_trained_by_id_def twins_by_id_def mk_product_def
        ProductRecommendation_def)
  note a = trained_similar_bounded_sorted_without_self[OF h d m(1) m(2) z, where w = "twin_world twins"]
  note b = trained_similar_bounded_sorted_without_self[OF h' d' m(3) m(4) z, where w = "twin_world twins_by_id"]
  have b': "sorted_wrt (\<lambda>a b. r_score b < r_score a \<or> (r_score b = r_score a \<and> r_product_id a < r_product_id b))
     (fst (get_similar_products twin_trained_by_id (twin_world twins_by_id) 1 2))"
    using b x o by (elim conjE allE[where x = rs]) simp
  show ?thesis using a b' d o train_twins train_twins_by_id similar_twins(2,4) by simp
qed

end
